theory Spec2Isabelle
  imports Main
begin

section \<open>Python strings\<close>

text \<open>
  A Python \<open>str\<close> is a sequence of Unicode code points, and \<open>len\<close>, \<open>strip\<close>,
  \<open>split\<close> and \<open>re\<close> all work on code points. A string is therefore a list of
  code points (natural numbers); \<open>py\<close> turns an ASCII literal into one.
\<close>

type_synonym pystr = "nat list"

definition py :: "string \<Rightarrow> pystr" where
  "py s = map of_char s"

text \<open>
  The code points for which \<open>str.isspace\<close> holds; \<open>str.strip()\<close> and
  \<open>str.split()\<close> without arguments use the same set.
\<close>

definition isspace :: "nat \<Rightarrow> bool" where
  "isspace c \<longleftrightarrow>
     (0x9 \<le> c \<and> c \<le> 0xD) \<or> (0x1C \<le> c \<and> c \<le> 0x20) \<or> c = 0x85 \<or> c = 0xA0 \<or>
     c = 0x1680 \<or> (0x2000 \<le> c \<and> c \<le> 0x200A) \<or> c = 0x2028 \<or> c = 0x2029 \<or>
     c = 0x202F \<or> c = 0x205F \<or> c = 0x3000"

text \<open>\<open>s.strip()\<close>: leading and trailing whitespace removed.\<close>

definition strip :: "pystr \<Rightarrow> pystr" where
  "strip s = rev (dropWhile isspace (rev (dropWhile isspace s)))"

text \<open>
  \<open>s.split()\<close>: the maximal runs of non-whitespace code points, in order. The first
  argument is the token read so far.
\<close>

fun split_from :: "pystr \<Rightarrow> pystr \<Rightarrow> pystr list" where
  "split_from cur [] = (if cur = [] then [] else [cur])"
| "split_from cur (c # cs) =
     (if isspace c then (if cur = [] then split_from [] cs else cur # split_from [] cs)
      else split_from (cur @ [c]) cs)"

definition split :: "pystr \<Rightarrow> pystr list" where
  "split s = split_from [] s"

text \<open>\<open>s.startswith(p)\<close>.\<close>

definition startswith :: "pystr \<Rightarrow> pystr \<Rightarrow> bool" where
  "startswith s p \<longleftrightarrow> take (length p) s = p"

text \<open>\<open>str(n)\<close> for a non-negative integer: its decimal digits.\<close>

function str_nat :: "nat \<Rightarrow> pystr" where
  "str_nat n = (if n < 10 then [48 + n] else str_nat (n div 10) @ [48 + n mod 10])"
  by pat_completeness auto
termination
  by (relation "measure id") auto

declare str_nat.simps [simp del]

section \<open>Credential format check (app.py)\<close>

text \<open>
  \<open>validate_api_key(api_key)\<close>. The argument is \<open>None\<close> or a string
  (\<open>os.getenv\<close>, the session value, the text input).
\<close>

definition validate_api_key :: "pystr option \<Rightarrow> bool" where
  "validate_api_key api_key =
     (case api_key of
        None \<Rightarrow> False
      | Some k \<Rightarrow>
          if k = [] \<or> length k < 20 then False
          else if \<not> (startswith k (py ''sk-'') \<or> startswith k (py ''org-'')) then False
          else True)"

section \<open>Question segmentation (app.py and document_processor.py)\<close>

definition qmark :: nat where
  "qmark = 0x3F"

definition dot :: nat where
  "dot = 0x2E"

definition bang :: nat where
  "bang = 0x21"

definition newline :: nat where
  "newline = 0xA"

text \<open>The class \<open>[A-Z]\<close> of a \<open>str\<close> pattern without flags: the ASCII capitals.\<close>

definition class_upper :: "nat \<Rightarrow> bool" where
  "class_upper c \<longleftrightarrow> 0x41 \<le> c \<and> c \<le> 0x5A"

text \<open>The class \<open>[^?.!]\<close>: every code point but these three, the newline included.\<close>

definition class_not_punct :: "nat \<Rightarrow> bool" where
  "class_not_punct c \<longleftrightarrow> c \<noteq> qmark \<and> c \<noteq> dot \<and> c \<noteq> bang"

text \<open>
  \<open>[^?.!]*\?\<close> matched at the start of a text: the star is greedy, so a code point
  of the class is consumed first, and only when the rest then fails does the matcher
  backtrack and try the literal \<open>?\<close> here.
\<close>

fun match_tail :: "pystr \<Rightarrow> pystr option" where
  "match_tail [] = None"
| "match_tail (c # cs) =
     (case (if class_not_punct c then match_tail cs else None) of
        Some m \<Rightarrow> Some (c # m)
      | None \<Rightarrow> if c = qmark then Some [c] else None)"

text \<open>The whole pattern \<open>([A-Z][^?.!]*\?)\<close> matched at the start of a text.\<close>

fun match_at :: "pystr \<Rightarrow> pystr option" where
  "match_at [] = None"
| "match_at (c # cs) =
     (if class_upper c then map_option (\<lambda>m. c # m) (match_tail cs) else None)"

text \<open>
  \<open>re.findall(question_pattern, text)\<close>: the matches found scanning from the left;
  after a match the scan resumes at its end, otherwise one code point further. The
  pattern has one group, the whole match, so the list holds the matched strings.
\<close>

function findall :: "pystr \<Rightarrow> pystr list" where
  "findall [] = []"
| "findall (c # cs) =
     (case match_at (c # cs) of
        Some m \<Rightarrow> m # findall (drop (length m) (c # cs))
      | None \<Rightarrow> findall cs)"
  by pat_completeness auto
termination
proof (relation "measure length")
  show "wf (measure length)" by simp
next
  fix c :: nat and cs m :: "nat list"
  assume "match_at (c # cs) = Some m"
  then have "m \<noteq> []" by (auto split: if_splits)
  then show "(drop (length m) (c # cs), c # cs) \<in> measure length" by simp
next
  fix c :: nat and cs :: "nat list"
  show "(cs, c # cs) \<in> measure length" by simp
qed

text \<open>
  \<open>extract_questions(text)\<close>, the same in both files:
  \<open>[q.strip() for q in questions if len(q.split()) > 2]\<close>.
\<close>

definition extract_questions :: "pystr \<Rightarrow> pystr list" where
  "extract_questions text =
     map strip (filter (\<lambda>q. 2 < length (split q)) (findall text))"

section \<open>The environment: libraries, services and the user interface\<close>

text \<open>An exception caught by \<open>except Exception as e\<close>; the payload is \<open>str(e)\<close>.\<close>

datatype exn = Exn pystr

fun str_exn :: "exn \<Rightarrow> pystr" where
  "str_exn (Exn msg) = msg"

type_synonym path = pystr

type_synonym image = nat

text \<open>
  What a python-docx document holds: \<open>add_heading(text, level)\<close> and
  \<open>add_paragraph(text, style)\<close> append a block to the body.
\<close>

datatype block = Heading nat pystr | Paragraph "string option" pystr

text \<open>A file on storage: the uploaded bytes, or a saved document.\<close>

datatype content = Bytes "nat list" | Docx "block list"

text \<open>
  What the program does to its surroundings, in order. \<open>Call f\<close> records entry into the
  function \<open>f\<close> of the source; the other events are the Streamlit calls, with the
  text they show. \<open>Progress k n\<close> is \<open>progress_bar.progress(k / n)\<close>. The widgets
  that return what the user entered (\<open>st.text_input\<close>, \<open>st.file_uploader\<close>,
  \<open>st.button\<close>) are inputs of a run and leave no event; \<open>st.spinner\<close> shows nothing
  that lasts.
\<close>

datatype event =
    Call string
  | Info pystr
  | Error pystr
  | Warning pystr
  | Success pystr
  | Write pystr
  | Subheader pystr
  | Markdown pystr
  | Sidebar_success pystr
  | Sidebar_error pystr
  | Progress_new
  | Progress nat nat
  | Progress_empty
  | Status_new
  | Status_text pystr
  | Status_empty
  | Download_button pystr "content option" pystr pystr

text \<open>
  The libraries and services the program calls, as parameters: what each returns, or
  the exception it raises (\<open>Inl\<close>).
  \<^item> \<open>pdfplumber_open p\<close>: the pages of the pdf at \<open>p\<close>, each with the outcome of
    its \<open>extract_text()\<close> (\<open>None\<close> or a string);
  \<^item> \<open>tesseract_cmd_exists\<close>: \<open>pytesseract\<close> has a \<open>tesseract_cmd\<close> and that path exists;
  \<^item> \<open>convert_from_path\<close>, \<open>image_to_string\<close>: rasterisation and OCR of one image;
  \<^item> \<open>docx_Document p\<close>: the paragraph texts of the document at \<open>p\<close>;
  \<^item> \<open>chat_completion i key q\<close>: the \<open>i\<close>-th call of \<open>openai.ChatCompletion.create\<close>
    under \<open>openai.api_key = key\<close> for the question \<open>q\<close>, followed by
    \<open>response.choices[0].message.content\<close>: that content, or the exception either raises;
  \<^item> \<open>config_key\<close>: \<open>config.OPENAI_API_KEY\<close>; the outer \<open>None\<close> when the module or
    the attribute is missing;
  \<^item> \<open>temp_name i suffix\<close>: the name of the \<open>i\<close>-th \<open>NamedTemporaryFile\<close> of a run;
  \<^item> \<open>tmp_write p bytes\<close>: the exception that writing \<open>bytes\<close> to the temporary file
    \<open>p\<close> raises, if any (a full disk, for one), in \<open>tmp_file.write\<close> or when the
    \<open>with\<close> block closes the file, and how many of the bytes reached the file before it;
  \<^item> \<open>doc_save p\<close>: the exception \<open>doc.save(p)\<close> raises, if any;
  \<^item> \<open>str_lower\<close>: \<open>str.lower\<close>.
\<close>

record world =
  pdfplumber_open :: "path \<Rightarrow> exn + (exn + pystr option) list"
  tesseract_cmd_exists :: bool
  convert_from_path :: "path \<Rightarrow> exn + image list"
  image_to_string :: "image \<Rightarrow> exn + pystr"
  docx_Document :: "path \<Rightarrow> exn + pystr list"
  chat_completion :: "nat \<Rightarrow> pystr option \<Rightarrow> pystr \<Rightarrow> exn + pystr"
  config_key :: "pystr option option"
  temp_name :: "nat \<Rightarrow> pystr \<Rightarrow> path"
  tmp_write :: "path \<Rightarrow> nat list \<Rightarrow> (exn \<times> nat) option"
  doc_save :: "path \<Rightarrow> exn option"
  str_lower :: "pystr \<Rightarrow> pystr"

section \<open>Text extraction, document_processor.py\<close>

text \<open>
  The body of the page loop of \<open>extract_text_from_pdf\<close>:
  \<open>if extracted_text: text += extracted_text + "\n"\<close>.
\<close>

fun add_page :: "pystr \<Rightarrow> pystr option \<Rightarrow> pystr" where
  "add_page text None = text"
| "add_page text (Some extracted_text) =
     (if extracted_text \<noteq> [] then text @ extracted_text @ [newline] else text)"

text \<open>
  The loop \<open>for page in pdf.pages\<close>; an exception of \<open>page.extract_text()\<close> leaves it
  with the text read so far.
\<close>

fun dp_pdf_pages :: "(exn + pystr option) list \<Rightarrow> pystr \<Rightarrow> pystr \<times> exn option" where
  "dp_pdf_pages [] text = (text, None)"
| "dp_pdf_pages (page # pages) text =
     (case page of
        Inl e \<Rightarrow> (text, Some e)
      | Inr extracted_text \<Rightarrow> dp_pdf_pages pages (add_page text extracted_text))"

definition dp_extract_text_from_pdf :: "world \<Rightarrow> path \<Rightarrow> pystr \<times> event list" where
  "dp_extract_text_from_pdf w pdf_path =
     (case pdfplumber_open w pdf_path of
        Inl e \<Rightarrow>
          ([], [Call ''extract_text_from_pdf'',
                Error (py ''Error extracting text from PDF: '' @ str_exn e)])
      | Inr pages \<Rightarrow>
          (case dp_pdf_pages pages [] of
             (text, None) \<Rightarrow> (text, [Call ''extract_text_from_pdf''])
           | (text, Some e) \<Rightarrow>
               (text, [Call ''extract_text_from_pdf'',
                       Error (py ''Error extracting text from PDF: '' @ str_exn e)])))"

text \<open>The loop \<open>for image in images\<close> of \<open>extract_text_with_ocr\<close>.\<close>

fun dp_ocr_images :: "world \<Rightarrow> image list \<Rightarrow> pystr \<Rightarrow> exn + pystr" where
  "dp_ocr_images w [] full_text = Inr full_text"
| "dp_ocr_images w (img # images) full_text =
     (case image_to_string w img of
        Inl e \<Rightarrow> Inl e
      | Inr s \<Rightarrow> dp_ocr_images w images (full_text @ s @ [newline]))"

definition dp_extract_text_with_ocr :: "world \<Rightarrow> path \<Rightarrow> pystr \<times> event list" where
  "dp_extract_text_with_ocr w pdf_path =
     (case (case convert_from_path w pdf_path of
              Inl e \<Rightarrow> Inl e
            | Inr images \<Rightarrow> dp_ocr_images w images []) of
        Inr full_text \<Rightarrow> (full_text, [Call ''extract_text_with_ocr''])
      | Inl e \<Rightarrow>
          ([], [Call ''extract_text_with_ocr'',
                Error (py ''Error processing PDF with OCR: '' @ str_exn e)]))"

definition dp_get_pdf_text :: "world \<Rightarrow> path \<Rightarrow> pystr \<times> event list" where
  "dp_get_pdf_text w pdf_path =
     (case dp_extract_text_from_pdf w pdf_path of
        (text, ev) \<Rightarrow>
          if length (strip text) < 50 then
            (case dp_extract_text_with_ocr w pdf_path of
               (ocr_text, ev') \<Rightarrow>
                 (ocr_text,
                  [Call ''get_pdf_text''] @ ev @
                  [Info (py ''PDF appears to be scanned. Using OCR...'')] @ ev'))
          else
            (text,
             [Call ''get_pdf_text''] @ ev @
             [Info (py ''PDF has selectable text. Extracting directly...'')]))"

text \<open>The loop \<open>for para in doc.paragraphs: text += para.text + "\n"\<close>.\<close>

fun dp_docx_paragraphs :: "pystr list \<Rightarrow> pystr \<Rightarrow> pystr" where
  "dp_docx_paragraphs [] text = text"
| "dp_docx_paragraphs (para # paras) text = dp_docx_paragraphs paras (text @ para @ [newline])"

definition dp_extract_text_from_docx :: "world \<Rightarrow> path \<Rightarrow> pystr \<times> event list" where
  "dp_extract_text_from_docx w docx_path =
     (case docx_Document w docx_path of
        Inr paragraphs \<Rightarrow> (dp_docx_paragraphs paragraphs [], [Call ''extract_text_from_docx''])
      | Inl e \<Rightarrow>
          ([], [Call ''extract_text_from_docx'',
                Error (py ''Error extracting text from DOCX: '' @ str_exn e)]))"

definition dp_extract_questions_from_pdf :: "world \<Rightarrow> path \<Rightarrow> pystr list \<times> event list" where
  "dp_extract_questions_from_pdf w pdf_path =
     (case dp_get_pdf_text w pdf_path of
        (full_text, ev) \<Rightarrow> (extract_questions full_text, ev))"

definition dp_extract_questions_from_docx :: "world \<Rightarrow> path \<Rightarrow> pystr list \<times> event list" where
  "dp_extract_questions_from_docx w docx_path =
     (case dp_extract_text_from_docx w docx_path of
        (full_text, ev) \<Rightarrow> (extract_questions full_text, ev))"

section \<open>Text extraction, app.py\<close>

text \<open>
  In both extractors of app.py the loop stands inside
  \<open>with st.progress(0) as progress_bar\<close>. The \<open>with\<close> statement binds what \<open>__enter__\<close>
  of the progress element returns, and Streamlit's \<open>__enter__\<close> returns nothing: the
  name \<open>progress_bar\<close> is \<open>None\<close>, and \<open>progress_bar.progress(...)\<close> raises
  \<open>AttributeError\<close>.
\<close>

definition progress_on_None :: exn where
  "progress_on_None =
     Exn ([39] @ py ''NoneType'' @ [39] @ py '' object has no attribute '' @
          [39] @ py ''progress'' @ [39])"

text \<open>
  The page loop of \<open>extract_text_from_pdf\<close>: the first page is read and its text added;
  the progress call that ends the iteration raises, which leaves the loop for the
  \<open>except\<close> clause with the text so far. Only a document without pages passes the loop.
  The result is the text and the exception.
\<close>

fun app_pdf_pages :: "(exn + pystr option) list \<Rightarrow> pystr \<Rightarrow> pystr \<times> exn option" where
  "app_pdf_pages [] text = (text, None)"
| "app_pdf_pages (page # pages) text =
     (case page of
        Inl e \<Rightarrow> (text, Some e)
      | Inr extracted_text \<Rightarrow> (add_page text extracted_text, Some progress_on_None))"

definition app_extract_text_from_pdf :: "world \<Rightarrow> path \<Rightarrow> pystr \<times> event list" where
  "app_extract_text_from_pdf w pdf_path =
     (case pdfplumber_open w pdf_path of
        Inl e \<Rightarrow>
          ([], [Call ''extract_text_from_pdf'',
                Error (py ''Error extracting text from PDF: '' @ str_exn e)])
      | Inr pages \<Rightarrow>
          (case app_pdf_pages pages [] of
             (text, None) \<Rightarrow> (text, [Call ''extract_text_from_pdf'', Progress_new])
           | (text, Some e) \<Rightarrow>
               (text, [Call ''extract_text_from_pdf'', Progress_new,
                       Error (py ''Error extracting text from PDF: '' @ str_exn e)])))"

text \<open>
  The image loop of \<open>extract_text_with_ocr\<close>: the first image is read, then the progress
  call raises; the \<open>except\<close> clause of the function drops the text.
\<close>

fun app_ocr_images :: "world \<Rightarrow> image list \<Rightarrow> pystr \<Rightarrow> exn + pystr" where
  "app_ocr_images w [] full_text = Inr full_text"
| "app_ocr_images w (img # images) full_text =
     (case image_to_string w img of
        Inl e \<Rightarrow> Inl e
      | Inr s \<Rightarrow> Inl progress_on_None)"

definition ocr_failed :: "exn \<Rightarrow> event list" where
  "ocr_failed e =
     [Error (py ''Error processing PDF with OCR: '' @ str_exn e),
      Info (py ''If this is a scanned document, please make sure Tesseract OCR is properly installed.'')]"

definition app_extract_text_with_ocr :: "world \<Rightarrow> path \<Rightarrow> pystr \<times> event list" where
  "app_extract_text_with_ocr w pdf_path =
     (if \<not> tesseract_cmd_exists w then
        ([], [Call ''extract_text_with_ocr'',
              Error (py ''Tesseract OCR not available. Cannot process scanned document.'')])
      else
        (case convert_from_path w pdf_path of
           Inl e \<Rightarrow> ([], Call ''extract_text_with_ocr'' # ocr_failed e)
         | Inr images \<Rightarrow>
             (case app_ocr_images w images [] of
                Inr full_text \<Rightarrow> (full_text, [Call ''extract_text_with_ocr'', Progress_new])
              | Inl e \<Rightarrow>
                  ([], [Call ''extract_text_with_ocr'', Progress_new] @ ocr_failed e))))"

text \<open>\<open>"\n".join(xs)\<close>.\<close>

fun join_newline :: "pystr list \<Rightarrow> pystr" where
  "join_newline [] = []"
| "join_newline [x] = x"
| "join_newline (x # y # ys) = x @ [newline] @ join_newline (y # ys)"

definition app_extract_text_from_docx :: "world \<Rightarrow> path \<Rightarrow> pystr \<times> event list" where
  "app_extract_text_from_docx w docx_path =
     (case docx_Document w docx_path of
        Inr paragraphs \<Rightarrow> (join_newline paragraphs, [Call ''extract_text_from_docx''])
      | Inl e \<Rightarrow>
          ([], [Call ''extract_text_from_docx'',
                Error (py ''Error extracting text from DOCX: '' @ str_exn e)]))"

definition get_document_text :: "world \<Rightarrow> path \<Rightarrow> pystr \<Rightarrow> pystr \<times> event list" where
  "get_document_text w file_path file_type =
     (if file_type = py ''pdf'' then
        (case app_extract_text_from_pdf w file_path of
           (text, ev) \<Rightarrow>
             if length (strip text) < 50 then
               (case app_extract_text_with_ocr w file_path of
                  (ocr_text, ev') \<Rightarrow>
                    (ocr_text,
                     [Call ''get_document_text''] @ ev @
                     [Info (py ''PDF appears to be scanned. Using OCR...'')] @ ev'))
             else
               (text,
                [Call ''get_document_text''] @ ev @
                [Info (py ''PDF has selectable text. Extracting directly...'')]))
      else if file_type = py ''docx'' then
        (case app_extract_text_from_docx w file_path of
           (text, ev) \<Rightarrow>
             (text, [Call ''get_document_text'', Info (py ''Processing DOCX file...'')] @ ev))
      else ([], [Call ''get_document_text'']))"

section \<open>Answer acquisition\<close>

text \<open>
  \<open>generate_answers\<close> (document_processor.py). The loop over \<open>enumerate(questions)\<close>:
  \<open>n\<close> is \<open>len(questions)\<close>, \<open>i\<close> the index, \<open>qa_pairs\<close> the list built so far. Every
  exception of the call and of reading the response is caught, and the question is
  paired with a fixed text.
\<close>

definition dp_fallback :: pystr where
  "dp_fallback = py ''Unable to generate an answer at this time.''"

fun dp_answer_loop ::
  "world \<Rightarrow> pystr option \<Rightarrow> nat \<Rightarrow> nat \<Rightarrow> pystr list \<Rightarrow> (pystr \<times> pystr) list \<Rightarrow> event list \<Rightarrow>
     (pystr \<times> pystr) list \<times> event list"
where
  "dp_answer_loop w key n i [] qa_pairs ev = (qa_pairs, ev)"
| "dp_answer_loop w key n i (question # questions) qa_pairs ev =
     (case chat_completion w i key question of
        Inr content \<Rightarrow>
          dp_answer_loop w key n (i + 1) questions
            (qa_pairs @ [(question, strip content)])
            (ev @ [Status_text (py ''Generating answer for question '' @ str_nat (i + 1) @
                      py '' of '' @ str_nat n),
                   Progress (i + 1) n])
      | Inl e \<Rightarrow>
          dp_answer_loop w key n (i + 1) questions
            (qa_pairs @ [(question, dp_fallback)])
            (ev @ [Status_text (py ''Generating answer for question '' @ str_nat (i + 1) @
                      py '' of '' @ str_nat n),
                   Error (py ''Error generating answer for question: '' @ str_exn e),
                   Progress (i + 1) n]))"

text \<open>Python truth of a value that is \<open>None\<close> or a string.\<close>

fun truthy :: "pystr option \<Rightarrow> bool" where
  "truthy None = False"
| "truthy (Some s) = (s \<noteq> [])"

text \<open>
  \<open>openai.api_key = api_key or config.OPENAI_API_KEY\<close> comes before the loop and is
  not guarded: without an \<open>api_key\<close>, a \<open>config\<close> that lacks the attribute raises.
\<close>

definition config_has_no_key :: exn where
  "config_has_no_key =
     Exn (py ''module '' @ [39] @ py ''config'' @ [39] @ py '' has no attribute '' @
          [39] @ py ''OPENAI_API_KEY'' @ [39])"

definition generate_answers ::
  "world \<Rightarrow> pystr list \<Rightarrow> pystr option \<Rightarrow> exn + (pystr \<times> pystr) list \<times> event list"
where
  "generate_answers w questions api_key =
     (case (if truthy api_key then Inr api_key
            else (case config_key w of
                    None \<Rightarrow> Inl config_has_no_key
                  | Some k \<Rightarrow> Inr k)) of
        Inl e \<Rightarrow> Inl e
      | Inr key \<Rightarrow>
          (case dp_answer_loop w key (length questions) 0 questions []
                  [Call ''generate_answers'', Progress_new, Status_new] of
             (qa_pairs, ev) \<Rightarrow> Inr (qa_pairs, ev @ [Status_empty, Progress_empty])))"

text \<open>
  \<open>get_gpt_answer\<close> (app.py), the \<open>i\<close>-th call of a run, under the key that
  \<open>openai.api_key\<close> holds.
\<close>

definition app_fallback :: pystr where
  "app_fallback = py ''Unable to generate an answer. Please check your API key and try again.''"

definition get_gpt_answer :: "world \<Rightarrow> nat \<Rightarrow> pystr option \<Rightarrow> pystr \<Rightarrow> pystr \<times> event list" where
  "get_gpt_answer w i key question =
     (case chat_completion w i key question of
        Inr content \<Rightarrow> (strip content, [Call ''get_gpt_answer''])
      | Inl e \<Rightarrow>
          (app_fallback,
           [Call ''get_gpt_answer'', Error (py ''Error generating answer: '' @ str_exn e)]))"

text \<open>The loop \<open>for i, question in enumerate(questions)\<close> of \<open>main\<close> (app.py).\<close>

fun app_answer_loop ::
  "world \<Rightarrow> pystr option \<Rightarrow> nat \<Rightarrow> nat \<Rightarrow> pystr list \<Rightarrow> (pystr \<times> pystr) list \<Rightarrow> event list \<Rightarrow>
     (pystr \<times> pystr) list \<times> event list"
where
  "app_answer_loop w key n i [] questions_answers ev = (questions_answers, ev)"
| "app_answer_loop w key n i (question # questions) questions_answers ev =
     (case get_gpt_answer w i key question of
        (answer, ev') \<Rightarrow>
          app_answer_loop w key n (i + 1) questions
            (questions_answers @ [(question, answer)])
            (ev @ ev' @ [Progress (i + 1) n]))"

section \<open>Result assembly\<close>

text \<open>
  python-docx turns a tab, a newline and a carriage return of a paragraph's text into
  elements of their own and hands the rest to lxml, which takes the characters of XML 1.0
  and raises \<open>ValueError\<close> for any other: the remaining control characters below
  U+0020 (the form feed among them), the surrogates, U+FFFE and U+FFFF.
\<close>

definition xml_char :: "nat \<Rightarrow> bool" where
  "xml_char c \<longleftrightarrow>
     c = 0x9 \<or> c = 0xA \<or> c = 0xD \<or>
     (0x20 \<le> c \<and> (c < 0xD800 \<or> 0xDFFF < c) \<and> c \<noteq> 0xFFFE \<and> c \<noteq> 0xFFFF)"

definition value_error :: exn where
  "value_error =
     Exn (py ''All strings must be XML compatible: Unicode or ASCII, no NULL bytes or control characters'')"

text \<open>
  \<open>doc.add_heading(text, level)\<close> and \<open>doc.add_paragraph(text, style)\<close>: the block is
  appended to the document, or the call raises.
\<close>

definition add_heading :: "block list \<Rightarrow> pystr \<Rightarrow> nat \<Rightarrow> exn + block list" where
  "add_heading doc text level =
     (if list_all xml_char text then Inr (doc @ [Heading level text]) else Inl value_error)"

definition add_paragraph :: "block list \<Rightarrow> pystr \<Rightarrow> string option \<Rightarrow> exn + block list" where
  "add_paragraph doc text style =
     (if list_all xml_char text then Inr (doc @ [Paragraph style text]) else Inl value_error)"

text \<open>
  The loop of \<open>save_to_docx\<close> and \<open>save_qa_to_docx\<close> over
  \<open>enumerate(questions_answers, start=1)\<close>; \<open>doc\<close> is the document so far. An
  exception of either \<open>add_paragraph\<close> leaves the loop.
\<close>

fun add_qa_blocks :: "nat \<Rightarrow> (pystr \<times> pystr) list \<Rightarrow> block list \<Rightarrow> exn + block list" where
  "add_qa_blocks i [] doc = Inr doc"
| "add_qa_blocks i ((question, answer) # questions_answers) doc =
     (case add_paragraph doc (py ''Question '' @ str_nat i @ py '': '' @ question)
             (Some ''Heading 2'') of
        Inl e \<Rightarrow> Inl e
      | Inr doc1 \<Rightarrow>
          (case add_paragraph doc1 (answer @ [newline]) None of
             Inl e \<Rightarrow> Inl e
           | Inr doc2 \<Rightarrow> add_qa_blocks (i + 1) questions_answers doc2))"

text \<open>
  \<open>save_to_docx\<close> (app.py): a new document, the heading, the loop, and \<open>doc.save\<close>, which
  writes the file or raises. No exception is caught here. The result is the path and the
  storage.
\<close>

definition save_to_docx ::
  "world \<Rightarrow> (pystr \<times> pystr) list \<Rightarrow> path \<Rightarrow> (path \<rightharpoonup> content) \<Rightarrow> exn + path \<times> (path \<rightharpoonup> content)"
where
  "save_to_docx w questions_answers output_file fs =
     (case add_heading [] (py ''Questions & Answers from Document'') 1 of
        Inl e \<Rightarrow> Inl e
      | Inr doc0 \<Rightarrow>
          (case add_qa_blocks 1 questions_answers doc0 of
             Inl e \<Rightarrow> Inl e
           | Inr doc \<Rightarrow>
               (case doc_save w output_file of
                  Some e \<Rightarrow> Inl e
                | None \<Rightarrow> Inr (output_file, fs(output_file \<mapsto> Docx doc)))))"


section \<open>The page script of app.py\<close>

text \<open>
  \<open>get_api_key()\<close>: the environment variable, then the session value, then
  \<open>config.OPENAI_API_KEY\<close>; a missing module or attribute is passed over.
\<close>

definition get_api_key :: "world \<Rightarrow> pystr option \<Rightarrow> pystr option \<Rightarrow> pystr option" where
  "get_api_key w env_key session_key =
     (let api_key = env_key;
          api_key = (if \<not> validate_api_key api_key \<and> truthy session_key
                     then session_key else api_key);
          api_key = (if \<not> validate_api_key api_key
                     then (case config_key w of Some k \<Rightarrow> k | None \<Rightarrow> api_key)
                     else api_key)
      in api_key)"

text \<open>\<open>s.split(sep)\<close> for a one-character separator; the second argument is the piece read so far.\<close>

fun split_sep :: "nat \<Rightarrow> pystr \<Rightarrow> pystr \<Rightarrow> pystr list" where
  "split_sep sep cur [] = [cur]"
| "split_sep sep cur (c # cs) =
     (if c = sep then cur # split_sep sep [] cs else split_sep sep (cur @ [c]) cs)"

text \<open>
  What the user and the host give to one run of the script: the environment variable,
  the text typed into the key field, the uploaded file (its name and bytes), whether the
  button was pressed, and the result of \<open>setup_tesseract()\<close>.
\<close>

record uploaded_file =
  name :: pystr
  getvalue :: "nat list"

record inputs =
  env_api_key :: "pystr option"
  api_key_input :: pystr
  uploaded :: "uploaded_file option"
  button :: bool
  tesseract_available :: bool

text \<open>What a run changes: storage, \<open>st.session_state.api_key\<close> and \<open>openai.api_key\<close>.\<close>

record state =
  fs :: "path \<rightharpoonup> content"
  session_api_key :: "pystr option"
  openai_api_key :: "pystr option"

text \<open>
  The key section of \<open>main\<close>: \<open>current_api_key\<close> after \<open>get_api_key()\<close> and the text
  input, with the session state and the events.
\<close>

definition key_input :: "world \<Rightarrow> inputs \<Rightarrow> state \<Rightarrow> pystr option \<times> state \<times> event list" where
  "key_input w inp s =
     (let current_api_key = get_api_key w (env_api_key inp) (session_api_key s)
      in if api_key_input inp \<noteq> [] then
           (if validate_api_key (Some (api_key_input inp)) then
              (Some (api_key_input inp), s\<lparr>session_api_key := Some (api_key_input inp)\<rparr>,
               [Success (py ''API key set for this session!'')])
            else
              (current_api_key, s, [Error (py ''Invalid API key format. Please check your key.'')]))
         else (current_api_key, s, []))"

definition key_status :: "pystr option \<Rightarrow> state \<Rightarrow> state \<times> event list" where
  "key_status current_api_key s =
     (if validate_api_key current_api_key then
        (s\<lparr>openai_api_key := current_api_key\<rparr>,
         [Sidebar_success ([0x2705] @ py '' API Key configured'')])
      else
        (s\<lparr>openai_api_key := None\<rparr>,
         [Warning (py ''Please enter your OpenAI API key to proceed.''),
          Sidebar_error ([0x274C] @ py '' API Key not configured'')]))"

text \<open>The loops that show the questions and the answers, counting from 1.\<close>

fun write_questions :: "nat \<Rightarrow> pystr list \<Rightarrow> event list" where
  "write_questions i [] = []"
| "write_questions i (q # questions) =
     Write (py ''**Q'' @ str_nat i @ py '':** '' @ q) # write_questions (i + 1) questions"

fun show_answers :: "nat \<Rightarrow> (pystr \<times> pystr) list \<Rightarrow> event list" where
  "show_answers i [] = []"
| "show_answers i ((q, a) # questions_answers) =
     [Markdown (py ''**Question '' @ str_nat i @ py '':** '' @ q),
      Markdown (py ''**Answer:** '' @ a),
      Markdown (py ''---'')] @ show_answers (i + 1) questions_answers"

text \<open>
  The block under \<open>if st.button("Generate Expert Answers")\<close>: the answers, the output
  file (a second temporary file, created empty and then written by \<open>save_to_docx\<close>), the
  download button and the answers shown. An exception of \<open>save_to_docx\<close> leaves the block.
\<close>

definition generate_block ::
  "world \<Rightarrow> pystr option \<Rightarrow> pystr list \<Rightarrow> (path \<rightharpoonup> content) \<Rightarrow>
     (path \<rightharpoonup> content) \<times> event list \<times> exn option"
where
  "generate_block w key questions fs0 =
     (case app_answer_loop w key (length questions) 0 questions [] [Progress_new] of
        (questions_answers, ev) \<Rightarrow>
          (let output_file = temp_name w 1 (py ''.docx'');
               fs1 = fs0(output_file \<mapsto> Bytes [])
           in case save_to_docx w questions_answers output_file fs1 of
                Inl e \<Rightarrow> (fs1, ev, Some e)
              | Inr (saved, fs2) \<Rightarrow>
                  (fs2,
                   ev @
                   [Download_button (py ''Download Q&A Document'') (fs2 output_file)
                      (py ''Document_QA.docx'')
                      (py ''application/vnd.openxmlformats-officedocument.wordprocessingml.document''),
                    Subheader (py ''Generated Answers'')] @
                   show_answers 1 questions_answers,
                   None)))"

text \<open>The body of the \<open>try\<close> of \<open>main\<close>.\<close>

definition process_document ::
  "world \<Rightarrow> inputs \<Rightarrow> pystr option \<Rightarrow> path \<Rightarrow> pystr \<Rightarrow> (path \<rightharpoonup> content) \<Rightarrow>
     (path \<rightharpoonup> content) \<times> event list \<times> exn option"
where
  "process_document w inp key temp_file_path file_type fs0 =
     (case get_document_text w temp_file_path file_type of
        (full_text, ev) \<Rightarrow>
          (let questions = extract_questions full_text
           in if questions = [] then
                (fs0, ev @ [Warning (py ''No questions were extracted from the document.'')], None)
              else
                (let shown = ev @
                       [Subheader (py ''Extracted Questions ('' @ str_nat (length questions) @ py '')'')] @
                       write_questions 1 questions
                 in if button inp then
                      (case generate_block w key questions fs0 of
                         (fs1, ev', r) \<Rightarrow> (fs1, shown @ ev', r))
                    else (fs0, shown, None))))"

text \<open>
  \<open>os.unlink(path)\<close> on the storage: the file is removed, or the call raises when there
  is none.
\<close>

definition os_unlink :: "(path \<rightharpoonup> content) \<Rightarrow> path \<Rightarrow> exn + (path \<rightharpoonup> content)" where
  "os_unlink fs0 p =
     (case fs0 p of
        None \<Rightarrow> Inl (Exn (py ''No such file or directory''))
      | Some c \<Rightarrow> Inr (fs0(p := None)))"

text \<open>\<open>uploaded_file.name.split('.')[-1].lower()\<close>.\<close>

definition file_type_of :: "world \<Rightarrow> uploaded_file \<Rightarrow> pystr" where
  "file_type_of w f = str_lower w (last (split_sep dot [] (name f)))"

text \<open>
  \<open>main\<close>, from \<open>current_api_key = get_api_key()\<close> to the end of the \<open>finally\<close>: the
  state after the run, the events, and the exception that leaves \<open>main\<close>, if any. The
  temporary file is the first of the run: \<open>NamedTemporaryFile(delete=False)\<close> creates it
  and \<open>tmp_file.write\<close> fills it, both before the \<open>try\<close>, so that an exception of the
  write leaves \<open>main\<close> with the file, and what was written of it, in place. The \<open>finally\<close> block runs on both ways out
  of the \<open>try\<close>, and an exception of \<open>os.unlink\<close> is dropped there (\<open>except: pass\<close>).
\<close>

definition main :: "world \<Rightarrow> inputs \<Rightarrow> state \<Rightarrow> state \<times> event list \<times> exn option" where
  "main w inp s0 =
     (case key_input w inp s0 of
        (current_api_key, s1, ev1) \<Rightarrow>
          (case key_status current_api_key s1 of
             (s2, ev2) \<Rightarrow>
               (case uploaded inp of
                  None \<Rightarrow> (s2, ev1 @ ev2, None)
                | Some uploaded_file \<Rightarrow>
                    if \<not> validate_api_key current_api_key then (s2, ev1 @ ev2, None)
                    else
                      (let file_type = file_type_of w uploaded_file;
                           ev3 = (if file_type = py ''pdf'' \<and> \<not> tesseract_available inp then
                                    [Warning ([0x26A0, 0xFE0F] @
                                       py '' Note: Scanned PDFs cannot be processed because Tesseract OCR is not installed. Text-based PDFs will still work.'')]
                                  else []);
                           temp_file_path = temp_name w 0 ([dot] @ file_type);
                           fs0 = (fs s2)(temp_file_path \<mapsto> Bytes [])
                       in case tmp_write w temp_file_path (getvalue uploaded_file) of
                            Some (e, k) \<Rightarrow>
                              (s2\<lparr>fs := fs0(temp_file_path \<mapsto>
                                   Bytes (take k (getvalue uploaded_file)))\<rparr>,
                               ev1 @ ev2 @ ev3, Some e)
                          | None \<Rightarrow>
                              (case process_document w inp (openai_api_key s2) temp_file_path
                                      file_type
                                      (fs0(temp_file_path \<mapsto> Bytes (getvalue uploaded_file))) of
                                 (fs2, ev4, r) \<Rightarrow>
                                   (case os_unlink fs2 temp_file_path of
                                      Inr fs3 \<Rightarrow> (s2\<lparr>fs := fs3\<rparr>, ev1 @ ev2 @ ev3 @ ev4, r)
                                    | Inl e \<Rightarrow> (s2\<lparr>fs := fs2\<rparr>, ev1 @ ev2 @ ev3 @ ev4, r)))))))"

section \<open>Notions used in the properties\<close>

text \<open>
  \<open>interleave gaps qs\<close> is a text in which the strings \<open>qs\<close> occur one after the other,
  in this order and without overlap, with \<open>gaps\<close> before, between and after them.
\<close>

fun interleave :: "'a list list \<Rightarrow> 'a list list \<Rightarrow> 'a list" where
  "interleave (g # gs) (q # qs) = g @ q @ interleave gs qs"
| "interleave gs [] = concat gs"
| "interleave [] qs = concat qs"

text \<open>The strings the pattern \<open>[A-Z][^?.!]*\?\<close> matches.\<close>

definition question_shape :: "pystr \<Rightarrow> bool" where
  "question_shape q \<longleftrightarrow>
     (\<exists>c body. q = c # body @ [qmark] \<and> class_upper c \<and> (\<forall>x\<in>set body. class_not_punct x))"

text \<open>An environment to run the program in.\<close>

definition ascii_lower :: "pystr \<Rightarrow> pystr" where
  "ascii_lower s = map (\<lambda>c. if 0x41 \<le> c \<and> c \<le> 0x5A then c + 0x20 else c) s"

definition demo_world :: world where
  "demo_world =
     \<lparr> pdfplumber_open = (\<lambda>p.
         if p = py ''pages.pdf'' then
           Inr [Inr (Some (py ''Page one'')), Inr None, Inr (Some []), Inr (Some (py ''Page four''))]
         else if p = py ''long.pdf'' then
           Inr [Inr (Some (py ''What is the answer to this question? It is long enough.''))]
         else Inl (Exn (py ''No such file''))),
       tesseract_cmd_exists = True,
       convert_from_path = (\<lambda>p. Inr [0, 1]),
       image_to_string = (\<lambda>i. Inr (py ''Is this page scanned?'')),
       docx_Document = (\<lambda>p. Inr [py ''Where do we go?'', py ''Nowhere.'']),
       chat_completion = (\<lambda>i key q. if i = 1 then Inl (Exn (py ''timeout'')) else Inr (py '' Yes. '')),
       config_key = None,
       temp_name = (\<lambda>i suffix. py ''/tmp/tmp'' @ str_nat i @ suffix),
       tmp_write = (\<lambda>p bytes. None),
       doc_save = (\<lambda>p. None),
       str_lower = ascii_lower \<rparr>"

text \<open>The non-empty page texts, each followed by a newline.\<close>

definition page_lines :: "pystr option list \<Rightarrow> pystr" where
  "page_lines texts =
     concat (map (\<lambda>s. s @ [newline])
       (filter (\<lambda>s. s \<noteq> []) (map (\<lambda>t. case t of None \<Rightarrow> [] | Some s \<Rightarrow> s) texts)))"

text \<open>Entry into the OCR extractor.\<close>

definition ocr_call :: event where
  "ocr_call = Call ''extract_text_with_ocr''"

text \<open>The answer paired with the question of the \<open>i\<close>-th call.\<close>

definition dp_answer :: "world \<Rightarrow> pystr option \<Rightarrow> nat \<Rightarrow> pystr \<Rightarrow> pystr" where
  "dp_answer w key i question =
     (case chat_completion w i key question of Inl e \<Rightarrow> dp_fallback | Inr content \<Rightarrow> strip content)"

definition app_answer :: "world \<Rightarrow> pystr option \<Rightarrow> nat \<Rightarrow> pystr \<Rightarrow> pystr" where
  "app_answer w key i question =
     (case chat_completion w i key question of Inl e \<Rightarrow> app_fallback | Inr content \<Rightarrow> strip content)"

text \<open>
  Runs of the page: the document \<open>notes.docx\<close> uploaded and the button pressed, without
  a key and with one; the state before a run; an environment in which \<open>doc.save\<close>
  fails, and one in which the write of the uploaded bytes fails.
\<close>

definition no_key_inputs :: inputs where
  "no_key_inputs =
     \<lparr> env_api_key = None, api_key_input = [],
       uploaded = Some \<lparr> name = py ''notes.docx'', getvalue = [80, 75, 3, 4] \<rparr>,
       button = True, tesseract_available = True \<rparr>"

definition key_inputs :: inputs where
  "key_inputs = no_key_inputs \<lparr> env_api_key := Some (py ''sk-abcdefghijklmnopqrstu'') \<rparr>"

definition start_state :: state where
  "start_state = \<lparr> fs = Map.empty, session_api_key = None, openai_api_key = None \<rparr>"

definition failing_save_world :: world where
  "failing_save_world = demo_world \<lparr> doc_save := (\<lambda>p. Some (Exn (py ''No space left on device''))) \<rparr>"

definition failing_write_world :: world where
  "failing_write_world =
     demo_world \<lparr> tmp_write := (\<lambda>p bytes. Some (Exn (py ''No space left on device''), 2)) \<rparr>"



section \<open>Properties of question segmentation\<close>

lemma match_tail_length: "match_tail cs = Some m \<Longrightarrow> length m \<le> length cs \<and> m \<noteq> []"
  by (induction cs arbitrary: m) (auto split: option.splits if_splits)

lemma match_at_length: "match_at t = Some m \<Longrightarrow> 0 < length m \<and> length m \<le> length t"
  by (cases t) (auto split: if_splits dest: match_tail_length)

lemma match_tail_shape:
  "match_tail cs = Some m \<Longrightarrow>
     \<exists>body. m = body @ [qmark] \<and> (\<forall>x\<in>set body. class_not_punct x) \<and> take (length m) cs = m"
proof (induction cs arbitrary: m)
  case Nil
  then show ?case by simp
next
  case (Cons c cs)
  show ?case
  proof (cases "class_not_punct c")
    case True
    then have nq: "c \<noteq> qmark" by (simp add: class_not_punct_def)
    with Cons.prems True obtain m' where m': "match_tail cs = Some m'" "m = c # m'"
      by (auto split: option.splits)
    from Cons.IH [OF m'(1)] obtain body where
      b: "m' = body @ [qmark]" "\<forall>x\<in>set body. class_not_punct x" "take (length m') cs = m'"
      by blast
    show ?thesis
    proof (intro exI conjI)
      show "m = (c # body) @ [qmark]" using m'(2) b(1) by simp
      show "\<forall>x\<in>set (c # body). class_not_punct x" using True b(2) by simp
      show "take (length m) (c # cs) = m" using m'(2) b(3) by simp
    qed
  next
    case False
    with Cons.prems have "c = qmark" "m = [c]" by (auto split: if_splits)
    then show ?thesis by simp
  qed
qed

lemma match_at_shape:
  assumes "match_at t = Some m"
  shows "question_shape m \<and> take (length m) t = m"
proof (cases t)
  case Nil
  with assms show ?thesis by simp
next
  case (Cons c cs)
  with assms obtain m' where up: "class_upper c" and m': "match_tail cs = Some m'" "m = c # m'"
    by (auto split: if_splits)
  from match_tail_shape [OF m'(1)] obtain body where
    b: "m' = body @ [qmark]" "\<forall>x\<in>set body. class_not_punct x" "take (length m') cs = m'"
    by blast
  have "question_shape m"
    unfolding question_shape_def using up m'(2) b(1,2) by blast
  moreover have "take (length m) t = m" using Cons m'(2) b(3) by simp
  ultimately show ?thesis ..
qed

lemma findall_shape: "q \<in> set (findall t) \<Longrightarrow> question_shape q"
proof (induction t rule: findall.induct)
  case 1
  then show ?case by simp
next
  case (2 c cs)
  show ?case
  proof (cases "match_at (c # cs)")
    case None
    with 2 show ?thesis by simp
  next
    case (Some m)
    with "2.prems" have "q = m \<or> q \<in> set (findall (drop (length m) (c # cs)))" by simp
    then show ?thesis
    proof
      assume "q = m"
      with match_at_shape [OF Some] show ?thesis by simp
    next
      assume "q \<in> set (findall (drop (length m) (c # cs)))"
      with "2.IH"(2) [OF Some] show ?thesis .
    qed
  qed
qed

lemma class_upper_not_space: "class_upper c \<Longrightarrow> \<not> isspace c"
  by (simp add: class_upper_def isspace_def)

lemma qmark_not_space: "\<not> isspace qmark"
  by (simp add: qmark_def isspace_def)

lemma strip_question: "question_shape q \<Longrightarrow> strip q = q"
  by (auto simp: question_shape_def strip_def class_upper_not_space qmark_not_space)

lemma interleave_append_head: "interleave ((a @ h) # hs) qs = a @ interleave (h # hs) qs"
  by (cases qs) simp_all

lemma interleave_filter:
  "length gaps = Suc (length qs) \<Longrightarrow>
     \<exists>gaps'. length gaps' = Suc (length (filter P qs)) \<and>
       interleave gaps' (filter P qs) = interleave gaps qs"
proof (induction qs arbitrary: gaps)
  case Nil
  then show ?case by auto
next
  case (Cons q qs)
  then obtain g gs where gaps: "gaps = g # gs" "length gs = Suc (length qs)"
    by (cases gaps) auto
  from Cons.IH [OF gaps(2)] obtain gs' where
    gs': "length gs' = Suc (length (filter P qs))" "interleave gs' (filter P qs) = interleave gs qs"
    by blast
  show ?case
  proof (cases "P q")
    case True
    have "length (g # gs') = Suc (length (filter P (q # qs)))" using True gs'(1) by simp
    moreover have "interleave (g # gs') (filter P (q # qs)) = interleave gaps (q # qs)"
      using True gs'(2) gaps(1) by simp
    ultimately show ?thesis by blast
  next
    case False
    from gs'(1) obtain h hs where h: "gs' = h # hs" by (cases gs') auto
    have "length ((g @ q @ h) # hs) = Suc (length (filter P (q # qs)))"
      using False gs'(1) h by simp
    moreover have "interleave ((g @ q @ h) # hs) (filter P (q # qs)) = interleave gaps (q # qs)"
      using False gs'(2) gaps(1) h interleave_append_head [of "g @ q" h hs "filter P qs"] by simp
    ultimately show ?thesis by blast
  qed
qed

lemma findall_interleave:
  "\<exists>gaps. length gaps = Suc (length (findall t)) \<and> interleave gaps (findall t) = t"
proof (induction t rule: findall.induct)
  case 1
  have "length [[]::pystr] = Suc (length (findall [])) \<and> interleave [[]] (findall []) = ([]::pystr)"
    by simp
  then show ?case by blast
next
  case (2 c cs)
  show ?case
  proof (cases "match_at (c # cs)")
    case None
    from "2.IH"(1) [OF None] obtain gaps where
      g: "length gaps = Suc (length (findall cs))" "interleave gaps (findall cs) = cs" by blast
    then obtain h hs where h: "gaps = h # hs" by (cases gaps) auto
    have "length (([c] @ h) # hs) = Suc (length (findall (c # cs)))" using None g(1) h by simp
    moreover have "interleave (([c] @ h) # hs) (findall (c # cs)) = c # cs"
      using None g(2) h interleave_append_head [of "[c]" h hs "findall cs"] by simp
    ultimately show ?thesis by blast
  next
    case (Some m)
    from "2.IH"(2) [OF Some] obtain gaps where
      g: "length gaps = Suc (length (findall (drop (length m) (c # cs))))"
         "interleave gaps (findall (drop (length m) (c # cs))) = drop (length m) (c # cs)"
      by blast
    from match_at_shape [OF Some] have tk: "take (length m) (c # cs) = m" by simp
    have "length ([] # gaps) = Suc (length (findall (c # cs)))" using Some g(1) by simp
    moreover have "interleave ([] # gaps) (findall (c # cs)) = c # cs"
    proof -
      have "interleave ([] # gaps) (findall (c # cs)) = m @ drop (length m) (c # cs)"
        using Some g(2) by simp
      also have "\<dots> = take (length m) (c # cs) @ drop (length m) (c # cs)" using tk by simp
      finally show ?thesis by simp
    qed
    ultimately show ?thesis by blast
  qed
qed

lemma class_upper_not_punct: "class_upper c \<Longrightarrow> class_not_punct c"
  by (simp add: class_upper_def class_not_punct_def qmark_def dot_def bang_def)

lemma match_tail_append:
  "cs \<noteq> [] \<Longrightarrow> \<not> class_not_punct (last cs) \<Longrightarrow> match_tail (cs @ t) = match_tail cs"
proof (induction cs)
  case Nil
  then show ?case by simp
next
  case (Cons c cs)
  show ?case
  proof (cases "cs = []")
    case True
    with Cons.prems show ?thesis by simp
  next
    case False
    with Cons have "match_tail (cs @ t) = match_tail cs" by simp
    then show ?thesis by simp
  qed
qed

lemma match_at_append:
  assumes "t1 \<noteq> []" "\<not> class_not_punct (last t1)"
  shows "match_at (t1 @ t2) = match_at t1"
proof (cases t1)
  case Nil
  with assms show ?thesis by simp
next
  case (Cons c cs)
  show ?thesis
  proof (cases "cs = []")
    case True
    with Cons assms(2) have "\<not> class_upper c" using class_upper_not_punct by auto
    with Cons True show ?thesis by simp
  next
    case False
    with Cons assms(2) have "match_tail (cs @ t2) = match_tail cs"
      by (simp add: match_tail_append)
    with Cons show ?thesis by simp
  qed
qed

lemma findall_append:
  "t1 = [] \<or> \<not> class_not_punct (last t1) \<Longrightarrow> findall (t1 @ t2) = findall t1 @ findall t2"
proof (induction t1 rule: findall.induct)
  case 1
  then show ?case by simp
next
  case (2 c cs)
  from "2.prems" have lastp: "\<not> class_not_punct (last (c # cs))" by simp
  have eq: "match_at ((c # cs) @ t2) = match_at (c # cs)"
    using lastp by (intro match_at_append) simp_all
  show ?case
  proof (cases "match_at (c # cs)")
    case None
    have "cs = [] \<or> \<not> class_not_punct (last cs)" using lastp by (cases cs) auto
    from "2.IH"(1) [OF None this] have "findall (cs @ t2) = findall cs @ findall t2" .
    with None eq show ?thesis by simp
  next
    case (Some m)
    from match_at_shape [OF Some] have tk: "take (length m) (c # cs) = m" by simp
    have len: "length m \<le> length (c # cs)"
      using match_at_length [OF Some] by simp
    define r where "r = drop (length m) (c # cs)"
    have "r = [] \<or> \<not> class_not_punct (last r)"
      using lastp unfolding r_def by (cases "drop (length m) (c # cs) = []") (auto simp: last_drop)
    from "2.IH"(2) [OF Some this [unfolded r_def]]
    have ih: "findall (r @ t2) = findall r @ findall t2" unfolding r_def .
    have dr: "drop (length m) ((c # cs) @ t2) = r @ t2"
    proof -
      have "length m - length (c # cs) = 0" using len by simp
      then show ?thesis unfolding r_def by (simp only: drop_append drop_0)
    qed
    have "findall ((c # cs) @ t2) = m # findall (r @ t2)"
      using eq Some dr by simp
    also have "\<dots> = (m # findall r) @ findall t2" using ih by simp
    also have "m # findall r = findall (c # cs)" using Some unfolding r_def by simp
    finally show ?thesis .
  qed
qed

lemma match_tail_complete:
  "\<forall>x\<in>set body. class_not_punct x \<Longrightarrow> match_tail (body @ qmark # post) = Some (body @ [qmark])"
proof (induction body)
  case Nil
  have "\<not> class_not_punct qmark" by (simp add: class_not_punct_def)
  then show ?case by simp
next
  case (Cons b body)
  then show ?case by simp
qed

lemma findall_skip:
  "\<forall>x\<in>set pre. \<not> class_upper x \<Longrightarrow> findall (pre @ t) = findall t"
  by (induction pre) simp_all

lemma findall_question:
  assumes "class_upper c" "\<forall>x\<in>set body. class_not_punct x"
  shows "findall (c # body @ qmark # post) = (c # body @ [qmark]) # findall post"
proof -
  have "match_at (c # body @ qmark # post) = Some (c # body @ [qmark])"
    using assms by (simp add: match_tail_complete)
  then show ?thesis by simp
qed

lemmas str_eval = py_def strip_def split_def isspace_def class_upper_def class_not_punct_def
  qmark_def dot_def bang_def newline_def startswith_def

text \<open>
  C7: \<open>validate_api_key\<close> returns false for \<open>None\<close>, for the empty string and for
  every string shorter than 20 characters; false for every string that starts with neither
  \<open>sk-\<close> nor \<open>org-\<close>; and true for every string of at least 20 characters with
  one of the two prefixes.
\<close>

theorem validate_api_key_spec:
  "\<not> validate_api_key None \<and> \<not> validate_api_key (Some []) \<and>
   (length k1 < 20 \<longrightarrow> \<not> validate_api_key (Some k1)) \<and>
   (\<not> startswith k2 (py ''sk-'') \<and> \<not> startswith k2 (py ''org-'') \<longrightarrow>
      \<not> validate_api_key (Some k2)) \<and>
   (20 \<le> length k3 \<and> (startswith k3 (py ''sk-'') \<or> startswith k3 (py ''org-'')) \<longrightarrow>
      validate_api_key (Some k3))"
  by (auto simp: validate_api_key_def)

theorem validate_api_key_spec_witness:
  "length (py ''sk-tooshort'') < 20 \<and> \<not> validate_api_key (Some (py ''sk-tooshort'')) \<and>
   \<not> validate_api_key (Some (py ''pk-abcdefghijklmnopqrstu'')) \<and>
   length (py ''sk-abcdefghijklmnopqrstu'') = 24 \<and>
   validate_api_key (Some (py ''sk-abcdefghijklmnopqrstu'')) \<and>
   validate_api_key (Some (py ''org-abcdefghijklmnopqrst''))"
  using validate_api_key_spec [of "py ''sk-tooshort''" "py ''pk-abcdefghijklmnopqrstu''"
      "py ''sk-abcdefghijklmnopqrstu''"]
    validate_api_key_spec [of "[]" "[]" "py ''org-abcdefghijklmnopqrst''"]
  by (simp add: py_def startswith_def)

text \<open>
  C2: every element of \<open>extract_questions text\<close> is an ASCII capital, then code points
  other than \<open>?\<close>, \<open>.\<close> and \<open>!\<close>, then a closing \<open>?\<close>, and splits into more than
  two whitespace-separated tokens. The elements lie in the text one after the other, in
  the order of the list (the text is the elements interleaved with what lies between
  them). Nothing is removed as a duplicate: after a text that ends a sentence, the
  questions of what follows are appended whole, so a question that occurs twice is listed
  twice. The empty text has no questions.
\<close>

theorem extract_questions_spec:
  "(\<forall>q\<in>set (extract_questions text).
      (\<exists>c body. q = c # body @ [qmark] \<and> class_upper c \<and>
         (\<forall>x\<in>set body. x \<noteq> qmark \<and> x \<noteq> dot \<and> x \<noteq> bang)) \<and>
      2 < length (split q)) \<and>
   (\<exists>gaps. length gaps = Suc (length (extract_questions text)) \<and>
      interleave gaps (extract_questions text) = text) \<and>
   (t1 = [] \<or> last t1 \<in> {qmark, dot, bang} \<longrightarrow>
      extract_questions (t1 @ t2) = extract_questions t1 @ extract_questions t2) \<and>
   extract_questions [] = []"
proof -
  have strip_id: "map strip (filter P (findall t)) = filter P (findall t)" for P t
    by (rule map_idI) (auto dest: findall_shape strip_question)
  have eq: "extract_questions t = filter (\<lambda>q. 2 < length (split q)) (findall t)" for t
    unfolding extract_questions_def by (rule strip_id)
  have "\<forall>q\<in>set (extract_questions text).
      (\<exists>c body. q = c # body @ [qmark] \<and> class_upper c \<and>
         (\<forall>x\<in>set body. x \<noteq> qmark \<and> x \<noteq> dot \<and> x \<noteq> bang)) \<and>
      2 < length (split q)"
  proof
    fix q assume "q \<in> set (extract_questions text)"
    then have mem: "q \<in> set (findall text)" and tok: "2 < length (split q)"
      by (simp_all add: eq)
    from findall_shape [OF mem] tok
    show "(\<exists>c body. q = c # body @ [qmark] \<and> class_upper c \<and>
         (\<forall>x\<in>set body. x \<noteq> qmark \<and> x \<noteq> dot \<and> x \<noteq> bang)) \<and>
      2 < length (split q)"
      by (simp add: question_shape_def class_not_punct_def)
  qed
  moreover have "\<exists>gaps. length gaps = Suc (length (extract_questions text)) \<and>
      interleave gaps (extract_questions text) = text"
  proof -
    from findall_interleave [of "text"] obtain gaps where
      g: "length gaps = Suc (length (findall text))" "interleave gaps (findall text) = text"
      by blast
    from interleave_filter [OF g(1), of "\<lambda>q. 2 < length (split q)"] g(2)
    show ?thesis by (simp add: eq)
  qed
  moreover have "t1 = [] \<or> last t1 \<in> {qmark, dot, bang} \<longrightarrow>
      extract_questions (t1 @ t2) = extract_questions t1 @ extract_questions t2"
  proof
    assume "t1 = [] \<or> last t1 \<in> {qmark, dot, bang}"
    then have "t1 = [] \<or> \<not> class_not_punct (last t1)"
      by (auto simp: class_not_punct_def)
    then show "extract_questions (t1 @ t2) = extract_questions t1 @ extract_questions t2"
      by (simp add: eq findall_append)
  qed
  moreover have "extract_questions [] = []" by (simp add: extract_questions_def)
  ultimately show ?thesis by blast
qed

theorem extract_questions_spec_witness:
  "extract_questions (py ''What is this system? Hi?'') = [py ''What is this system?''] \<and>
   length (split (py ''What is this system?'')) = 4 \<and>
   extract_questions (py ''Tell me. Why is it so?'' @ py ''Why is it so?'') =
     [py ''Why is it so?'', py ''Why is it so?'']"
  using extract_questions_spec [of "py ''What is this system? Hi?''"
      "py ''Tell me. Why is it so?''" "py ''Why is it so?''"]
  by (simp add: extract_questions_def str_eval)

text \<open>
  C8: a capital followed by a run without \<open>?\<close>, \<open>.\<close>, \<open>!\<close> that contains a newline,
  closed by \<open>?\<close>, with more than two tokens and after a prefix without capitals, is
  returned by \<open>extract_questions\<close> as one question: the pattern does not stop at the
  newline.
\<close>

theorem multiline_question_accepted:
  assumes "class_upper c" and "\<forall>x\<in>set body. x \<noteq> qmark \<and> x \<noteq> dot \<and> x \<noteq> bang"
    and "newline \<in> set body" and "2 < length (split (c # body @ [qmark]))"
    and "\<forall>x\<in>set pre. \<not> class_upper x"
  shows "c # body @ [qmark] \<in> set (extract_questions (pre @ c # body @ qmark # post))"
proof -
  let ?q = "c # body @ [qmark]"
  have "\<forall>x\<in>set body. class_not_punct x" using assms(2) by (simp add: class_not_punct_def)
  with assms(1) have fa: "findall (c # body @ qmark # post) = ?q # findall post"
    by (rule findall_question)
  then have "?q \<in> set (findall (pre @ c # body @ qmark # post))"
    using assms(5) by (simp add: findall_skip)
  moreover have "strip ?q = ?q"
    using assms(1) by (simp add: strip_def class_upper_not_space qmark_not_space)
  ultimately have "strip ?q \<in> strip ` {q \<in> set (findall (pre @ c # body @ qmark # post)).
      2 < length (split q)}"
    using assms(4) by blast
  then show ?thesis unfolding extract_questions_def by (simp add: \<open>strip ?q = ?q\<close>)
qed

theorem multiline_question_accepted_witness:
  "newline \<in> set (py ''What is'' @ newline # py ''this thing?'') \<and>
   py ''What is'' @ newline # py ''this thing?''
     \<in> set (extract_questions (py ''see: What is'' @ newline # py ''this thing? ok.''))"
  using multiline_question_accepted [where c = 87
      and body = "py ''hat is'' @ newline # py ''this thing''"
      and pre = "py ''see: ''" and post = "py '' ok.''"]
  by (simp add: str_eval)

section \<open>Properties of text extraction\<close>

lemma add_page_lines: "add_page acc t @ page_lines texts = acc @ page_lines (t # texts)"
  by (cases t) (simp_all add: page_lines_def)

lemma dp_pdf_pages_text:
  "rest = [] \<or> isl (hd rest) \<Longrightarrow>
     fst (dp_pdf_pages (map Inr texts @ rest) acc) = acc @ page_lines texts"
proof (induction texts arbitrary: acc)
  case Nil
  then show ?case by (cases "rest") (auto simp: page_lines_def isl_def)
next
  case (Cons t texts)
  from Cons.IH [OF Cons.prems, of "add_page acc t"] show ?case
    by (simp add: add_page_lines)
qed

lemma dp_pdf_text_concatenation:
  assumes "pdfplumber_open w p = Inr (map Inr texts @ rest)" and "rest = [] \<or> isl (hd rest)"
  shows "fst (dp_extract_text_from_pdf w p) =
           concat (map (\<lambda>s. s @ [newline])
             (filter (\<lambda>s. s \<noteq> []) (map (\<lambda>t. case t of None \<Rightarrow> [] | Some s \<Rightarrow> s) texts)))"
proof -
  have "fst (dp_extract_text_from_pdf w p) = fst (dp_pdf_pages (map Inr texts @ rest) [])"
    using assms(1) by (simp add: dp_extract_text_from_pdf_def split: prod.splits option.splits)
  then have "fst (dp_extract_text_from_pdf w p) = page_lines texts"
    using dp_pdf_pages_text [OF assms(2), of texts "[]"] by simp
  then show ?thesis unfolding page_lines_def by simp
qed

lemma app_pdf_text_first_page:
  "pdfplumber_open w p = Inr (Inr t # pages) \<Longrightarrow>
     fst (app_extract_text_from_pdf w p) = add_page [] t"
  by (simp add: app_extract_text_from_pdf_def)

text \<open>
  C5 holds for \<open>extract_text_from_pdf\<close> of document_processor.py and fails for the one
  of app.py. For a pdf whose four pages yield \<open>Page one\<close>, nothing, the empty string and
  \<open>Page four\<close>, document_processor.py returns the two non-empty texts, each followed by
  a newline; app.py returns the first page only: its progress call, made on \<open>None\<close>,
  raises after the first page, and the \<open>except\<close> clause returns the text so far.
\<close>

theorem app_pdf_text_stops_after_first_page:
  "fst (dp_extract_text_from_pdf demo_world (py ''pages.pdf'')) =
     py ''Page one'' @ [newline] @ py ''Page four'' @ [newline] \<and>
   fst (app_extract_text_from_pdf demo_world (py ''pages.pdf'')) = py ''Page one'' @ [newline] \<and>
   snd (app_extract_text_from_pdf demo_world (py ''pages.pdf'')) =
     [Call ''extract_text_from_pdf'', Progress_new,
      Error (py ''Error extracting text from PDF: '' @ str_exn progress_on_None)]"
  using dp_pdf_text_concatenation [of demo_world "py ''pages.pdf''"
      "[Some (py ''Page one''), None, Some [], Some (py ''Page four'')]" "[]"]
  by (simp add: app_extract_text_from_pdf_def demo_world_def py_def)

lemma dp_docx_paragraphs_eq:
  "dp_docx_paragraphs paras acc = acc @ concat (map (\<lambda>s. s @ [newline]) paras)"
  by (induction paras arbitrary: acc) simp_all

lemma join_newline_eq:
  "paras \<noteq> [] \<Longrightarrow> join_newline paras @ [newline] = concat (map (\<lambda>s. s @ [newline]) paras)"
  by (induction paras rule: join_newline.induct) simp_all

lemma newline_not_punct: "class_not_punct newline"
  by (simp add: class_not_punct_def newline_def qmark_def dot_def bang_def)

lemma newline_not_upper: "\<not> class_upper newline"
  by (simp add: class_upper_def newline_def)

lemma match_tail_newline: "match_tail (cs @ [newline]) = match_tail cs"
proof (induction cs)
  case Nil
  show ?case using newline_not_punct by (simp add: class_not_punct_def)
next
  case (Cons c cs)
  then show ?case by simp
qed

lemma match_at_newline: "match_at (t @ [newline]) = match_at t"
  by (cases t) (simp_all add: newline_not_upper match_tail_newline)

lemma findall_newline: "findall (t @ [newline]) = findall t"
proof (induction t rule: findall.induct)
  case 1
  show ?case by (simp add: newline_not_upper)
next
  case (2 c cs)
  have eq: "match_at ((c # cs) @ [newline]) = match_at (c # cs)" by (rule match_at_newline)
  show ?case
  proof (cases "match_at (c # cs)")
    case None
    with eq "2.IH"(1) [OF None] show ?thesis by simp
  next
    case (Some m)
    have "length m - length (c # cs) = 0" using match_at_length [OF Some] by simp
    then have "drop (length m) ((c # cs) @ [newline]) = drop (length m) (c # cs) @ [newline]"
      by (simp only: drop_append drop_0)
    with eq Some "2.IH"(2) [OF Some] show ?thesis by simp
  qed
qed

text \<open>
  C10, as stated, fails: for a document with the two paragraphs \<open>Where do we go?\<close> and
  \<open>Nowhere.\<close> the extractor of app.py returns the paragraphs joined by a newline, the
  one of document_processor.py the same followed by a newline.
\<close>

theorem docx_extractors_differ:
  "fst (app_extract_text_from_docx demo_world (py ''notes.docx'')) \<noteq>
   fst (dp_extract_text_from_docx demo_world (py ''notes.docx''))"
  by (simp add: app_extract_text_from_docx_def dp_extract_text_from_docx_def demo_world_def py_def)

text \<open>
  C10, amended: for a document with at least one paragraph, the extractor of
  document_processor.py returns what the extractor of app.py returns, followed by one
  newline; for a document without paragraphs, or one that cannot be opened, both return
  the empty string. The questions extracted from the two texts are the same.
\<close>

theorem docx_extractors_up_to_newline:
  "(case docx_Document w p of
      Inr (para # paras) \<Rightarrow>
        fst (dp_extract_text_from_docx w p) = fst (app_extract_text_from_docx w p) @ [newline]
    | Inr [] \<Rightarrow>
        fst (dp_extract_text_from_docx w p) = [] \<and> fst (app_extract_text_from_docx w p) = []
    | Inl e \<Rightarrow>
        fst (dp_extract_text_from_docx w p) = [] \<and> fst (app_extract_text_from_docx w p) = []) \<and>
   extract_questions (fst (dp_extract_text_from_docx w p)) =
     extract_questions (fst (app_extract_text_from_docx w p))"
proof (cases "docx_Document w p")
  case (Inl e)
  then show ?thesis
    by (simp add: app_extract_text_from_docx_def dp_extract_text_from_docx_def)
next
  case (Inr paras)
  show ?thesis
  proof (cases paras)
    case Nil
    with Inr show ?thesis
      by (simp add: app_extract_text_from_docx_def dp_extract_text_from_docx_def)
  next
    case (Cons a list)
    then have "join_newline paras @ [newline] = dp_docx_paragraphs paras []"
      using join_newline_eq [of paras] by (simp add: dp_docx_paragraphs_eq)
    then have eq: "fst (dp_extract_text_from_docx w p) =
        fst (app_extract_text_from_docx w p) @ [newline]"
      using Inr by (simp add: app_extract_text_from_docx_def dp_extract_text_from_docx_def)
    then have "extract_questions (fst (dp_extract_text_from_docx w p)) =
        extract_questions (fst (app_extract_text_from_docx w p))"
      by (simp add: extract_questions_def findall_newline)
    with eq Inr Cons show ?thesis by simp
  qed
qed

theorem docx_extractors_up_to_newline_witness:
  "fst (app_extract_text_from_docx demo_world (py ''notes.docx'')) =
     py ''Where do we go?'' @ [newline] @ py ''Nowhere.'' \<and>
   fst (dp_extract_text_from_docx demo_world (py ''notes.docx'')) =
     py ''Where do we go?'' @ [newline] @ py ''Nowhere.'' @ [newline] \<and>
   fst (dp_extract_text_from_docx (demo_world \<lparr> docx_Document := (\<lambda>p. Inr []) \<rparr>)
     (py ''empty.docx'')) = [] \<and>
   fst (app_extract_text_from_docx (demo_world \<lparr> docx_Document := (\<lambda>p. Inr []) \<rparr>)
     (py ''empty.docx'')) = [] \<and>
   fst (dp_extract_text_from_docx
     (demo_world \<lparr> docx_Document := (\<lambda>p. Inl (Exn (py ''Package not found''))) \<rparr>)
     (py ''missing.docx'')) = [] \<and>
   fst (app_extract_text_from_docx
     (demo_world \<lparr> docx_Document := (\<lambda>p. Inl (Exn (py ''Package not found''))) \<rparr>)
     (py ''missing.docx'')) = []"
  using docx_extractors_up_to_newline [of demo_world "py ''notes.docx''"]
    docx_extractors_up_to_newline [of "demo_world \<lparr> docx_Document := (\<lambda>p. Inr []) \<rparr>"
      "py ''empty.docx''"]
    docx_extractors_up_to_newline
      [of "demo_world \<lparr> docx_Document := (\<lambda>p. Inl (Exn (py ''Package not found''))) \<rparr>"
        "py ''missing.docx''"]
  by (simp add: app_extract_text_from_docx_def demo_world_def py_def)

lemma app_pdf_no_ocr: "ocr_call \<notin> set (snd (app_extract_text_from_pdf w p))"
  by (auto simp: app_extract_text_from_pdf_def ocr_call_def
      split: sum.splits prod.splits option.splits)

lemma dp_pdf_no_ocr: "ocr_call \<notin> set (snd (dp_extract_text_from_pdf w p))"
  by (auto simp: dp_extract_text_from_pdf_def ocr_call_def split: sum.splits prod.splits option.splits)

lemma app_ocr_calls: "ocr_call \<in> set (snd (app_extract_text_with_ocr w p))"
  by (auto simp: app_extract_text_with_ocr_def ocr_call_def split: sum.splits prod.splits)

lemma dp_ocr_calls: "ocr_call \<in> set (snd (dp_extract_text_with_ocr w p))"
  by (auto simp: dp_extract_text_with_ocr_def ocr_call_def split: sum.splits prod.splits)

lemma app_docx_no_ocr: "ocr_call \<notin> set (snd (app_extract_text_from_docx w p))"
  by (auto simp: app_extract_text_from_docx_def ocr_call_def split: sum.splits)

lemma dp_docx_no_ocr: "ocr_call \<notin> set (snd (dp_extract_text_from_docx w p))"
  by (auto simp: dp_extract_text_from_docx_def ocr_call_def split: sum.splits)

lemma get_document_text_pdf:
  "get_document_text w p (py ''pdf'') =
     (if length (strip (fst (app_extract_text_from_pdf w p))) < 50 then
        (fst (app_extract_text_with_ocr w p),
         Call ''get_document_text'' # snd (app_extract_text_from_pdf w p) @
         Info (py ''PDF appears to be scanned. Using OCR...'') #
         snd (app_extract_text_with_ocr w p))
      else
        (fst (app_extract_text_from_pdf w p),
         Call ''get_document_text'' # snd (app_extract_text_from_pdf w p) @
         [Info (py ''PDF has selectable text. Extracting directly...'')]))"
  by (simp add: get_document_text_def split: prod.splits)

lemma py_docx_not_pdf: "py ''docx'' \<noteq> py ''pdf''"
  by (simp add: py_def)

lemma get_document_text_docx:
  "get_document_text w p (py ''docx'') =
     (fst (app_extract_text_from_docx w p),
      Call ''get_document_text'' # Info (py ''Processing DOCX file...'') #
      snd (app_extract_text_from_docx w p))"
  by (simp add: get_document_text_def py_docx_not_pdf split: prod.splits)

lemma dp_get_pdf_text_eq:
  "dp_get_pdf_text w p =
     (if length (strip (fst (dp_extract_text_from_pdf w p))) < 50 then
        (fst (dp_extract_text_with_ocr w p),
         Call ''get_pdf_text'' # snd (dp_extract_text_from_pdf w p) @
         Info (py ''PDF appears to be scanned. Using OCR...'') #
         snd (dp_extract_text_with_ocr w p))
      else
        (fst (dp_extract_text_from_pdf w p),
         Call ''get_pdf_text'' # snd (dp_extract_text_from_pdf w p) @
         [Info (py ''PDF has selectable text. Extracting directly...'')]))"
  by (simp add: dp_get_pdf_text_def split: prod.splits)

text \<open>
  C1: for a pdf, \<open>get_document_text\<close> (app.py) and \<open>get_pdf_text\<close>
  (document_processor.py) run structured extraction first; the OCR extractor is entered
  if and only if the structured text, stripped, is shorter than 50 characters, and then
  its text is returned, otherwise the structured text. For a docx, the docx extractor is
  run, its text is what is returned (or segmented), and the OCR extractor is never
  entered, whatever the length of the text.
\<close>

theorem extraction_dispatch:
  "(\<exists>later. snd (get_document_text w p (py ''pdf'')) =
       Call ''get_document_text'' # snd (app_extract_text_from_pdf w p) @ later) \<and>
   (Call ''extract_text_with_ocr'' \<in> set (snd (get_document_text w p (py ''pdf''))) \<longleftrightarrow>
      length (strip (fst (app_extract_text_from_pdf w p))) < 50) \<and>
   fst (get_document_text w p (py ''pdf'')) =
     (if length (strip (fst (app_extract_text_from_pdf w p))) < 50
      then fst (app_extract_text_with_ocr w p) else fst (app_extract_text_from_pdf w p)) \<and>
   (\<exists>later. snd (dp_get_pdf_text w p) =
       Call ''get_pdf_text'' # snd (dp_extract_text_from_pdf w p) @ later) \<and>
   (Call ''extract_text_with_ocr'' \<in> set (snd (dp_get_pdf_text w p)) \<longleftrightarrow>
      length (strip (fst (dp_extract_text_from_pdf w p))) < 50) \<and>
   fst (dp_get_pdf_text w p) =
     (if length (strip (fst (dp_extract_text_from_pdf w p))) < 50
      then fst (dp_extract_text_with_ocr w p) else fst (dp_extract_text_from_pdf w p)) \<and>
   fst (get_document_text w p (py ''docx'')) = fst (app_extract_text_from_docx w p) \<and>
   Call ''extract_text_from_docx'' \<in> set (snd (get_document_text w p (py ''docx''))) \<and>
   Call ''extract_text_with_ocr'' \<notin> set (snd (get_document_text w p (py ''docx''))) \<and>
   fst (dp_extract_questions_from_docx w p) =
     extract_questions (fst (dp_extract_text_from_docx w p)) \<and>
   Call ''extract_text_from_docx'' \<in> set (snd (dp_extract_questions_from_docx w p)) \<and>
   Call ''extract_text_with_ocr'' \<notin> set (snd (dp_extract_questions_from_docx w p))"
proof -
  note noc = app_pdf_no_ocr [of w p, unfolded ocr_call_def] dp_pdf_no_ocr [of w p, unfolded ocr_call_def]
    app_docx_no_ocr [of w p, unfolded ocr_call_def] dp_docx_no_ocr [of w p, unfolded ocr_call_def]
  note oc = app_ocr_calls [of w p, unfolded ocr_call_def] dp_ocr_calls [of w p, unfolded ocr_call_def]
  have a1: "\<exists>later. snd (get_document_text w p (py ''pdf'')) =
       Call ''get_document_text'' # snd (app_extract_text_from_pdf w p) @ later"
    by (simp add: get_document_text_pdf)
  have a2: "Call ''extract_text_with_ocr'' \<in> set (snd (get_document_text w p (py ''pdf''))) \<longleftrightarrow>
      length (strip (fst (app_extract_text_from_pdf w p))) < 50"
    using noc(1) oc(1) by (simp add: get_document_text_pdf)
  have a3: "fst (get_document_text w p (py ''pdf'')) =
     (if length (strip (fst (app_extract_text_from_pdf w p))) < 50
      then fst (app_extract_text_with_ocr w p) else fst (app_extract_text_from_pdf w p))"
    by (simp add: get_document_text_pdf)
  have b1: "\<exists>later. snd (dp_get_pdf_text w p) =
       Call ''get_pdf_text'' # snd (dp_extract_text_from_pdf w p) @ later"
    by (simp add: dp_get_pdf_text_eq)
  have b2: "Call ''extract_text_with_ocr'' \<in> set (snd (dp_get_pdf_text w p)) \<longleftrightarrow>
      length (strip (fst (dp_extract_text_from_pdf w p))) < 50"
    using noc(2) oc(2) by (simp add: dp_get_pdf_text_eq)
  have b3: "fst (dp_get_pdf_text w p) =
     (if length (strip (fst (dp_extract_text_from_pdf w p))) < 50
      then fst (dp_extract_text_with_ocr w p) else fst (dp_extract_text_from_pdf w p))"
    by (simp add: dp_get_pdf_text_eq)
  have c1: "fst (get_document_text w p (py ''docx'')) = fst (app_extract_text_from_docx w p)"
    by (simp add: get_document_text_docx)
  have c2: "Call ''extract_text_from_docx'' \<in> set (snd (get_document_text w p (py ''docx'')))"
    by (auto simp: get_document_text_docx app_extract_text_from_docx_def split: sum.splits)
  have c3: "Call ''extract_text_with_ocr'' \<notin> set (snd (get_document_text w p (py ''docx'')))"
    using noc(3) by (simp add: get_document_text_docx)
  have d1: "fst (dp_extract_questions_from_docx w p) =
     extract_questions (fst (dp_extract_text_from_docx w p))"
    by (simp add: dp_extract_questions_from_docx_def split: prod.splits)
  have d2: "Call ''extract_text_from_docx'' \<in> set (snd (dp_extract_questions_from_docx w p))"
    by (auto simp: dp_extract_questions_from_docx_def dp_extract_text_from_docx_def
        split: prod.splits sum.splits)
  have d3: "Call ''extract_text_with_ocr'' \<notin> set (snd (dp_extract_questions_from_docx w p))"
    using noc(4) by (auto simp: dp_extract_questions_from_docx_def split: prod.splits)
  from a1 a2 a3 b1 b2 b3 c1 c2 c3 d1 d2 d3 show ?thesis by blast
qed

theorem extraction_dispatch_witness:
  "fst (dp_get_pdf_text demo_world (py ''pages.pdf'')) =
     py ''Is this page scanned?'' @ [newline] @ py ''Is this page scanned?'' @ [newline] \<and>
   Call ''extract_text_with_ocr'' \<in> set (snd (dp_get_pdf_text demo_world (py ''pages.pdf''))) \<and>
   fst (get_document_text demo_world (py ''pages.pdf'') (py ''pdf'')) = [] \<and>
   Call ''extract_text_with_ocr'' \<in> set (snd (get_document_text demo_world (py ''pages.pdf'') (py ''pdf''))) \<and>
   fst (get_document_text demo_world (py ''long.pdf'') (py ''pdf'')) =
     py ''What is the answer to this question? It is long enough.'' @ [newline] \<and>
   Call ''extract_text_with_ocr'' \<notin> set (snd (get_document_text demo_world (py ''long.pdf'') (py ''pdf''))) \<and>
   fst (dp_get_pdf_text demo_world (py ''long.pdf'')) =
     py ''What is the answer to this question? It is long enough.'' @ [newline] \<and>
   Call ''extract_text_with_ocr'' \<notin> set (snd (dp_get_pdf_text demo_world (py ''long.pdf''))) \<and>
   Call ''extract_text_with_ocr'' \<notin> set (snd (get_document_text demo_world (py ''notes.docx'') (py ''docx'')))"
  using extraction_dispatch [of demo_world "py ''pages.pdf''"]
    extraction_dispatch [of demo_world "py ''long.pdf''"]
    extraction_dispatch [of demo_world "py ''notes.docx''"]
  by (simp add: app_extract_text_from_pdf_def app_extract_text_with_ocr_def
      dp_extract_text_from_pdf_def dp_extract_text_with_ocr_def demo_world_def
      py_def strip_def isspace_def newline_def)

section \<open>Properties of answer acquisition\<close>

lemma dp_answer_loop_pairs:
  "fst (dp_answer_loop w key n i questions qa_pairs ev) =
     qa_pairs @ map (\<lambda>(j, q). (q, dp_answer w key j q)) (enumerate i questions)"
  by (induction questions arbitrary: i qa_pairs ev)
     (simp_all add: dp_answer_def split: sum.splits)

lemma app_answer_loop_pairs:
  "fst (app_answer_loop w key n i questions questions_answers ev) =
     questions_answers @ map (\<lambda>(j, q). (q, app_answer w key j q)) (enumerate i questions)"
  by (induction questions arbitrary: i questions_answers ev)
     (simp_all add: app_answer_def get_gpt_answer_def split: sum.splits)

lemma map_fst_enumerate_pairs: "map fst (map (\<lambda>(j, q). (q, f j q)) (enumerate i qs)) = qs"
  by (induction qs arbitrary: i) simp_all

text \<open>
  Once the key is resolved, both loops return one pair for every question, in the order
  of the questions; the answer of a question whose call fails is the fixed text of the
  file, and both texts begin \<open>Unable to generate an answer\<close>.
\<close>

lemma answer_loops_complete:
  "((if truthy api_key then Some api_key else config_key w) = Some key \<longrightarrow>
      (\<exists>qa_pairs ev. generate_answers w questions api_key = Inr (qa_pairs, ev) \<and>
         map fst qa_pairs = questions \<and>
         (\<forall>i<length questions.
            snd (qa_pairs ! i) =
              (case chat_completion w i key (questions ! i) of
                 Inl e \<Rightarrow> dp_fallback | Inr content \<Rightarrow> strip content)))) \<and>
   map fst (fst (app_answer_loop w k (length questions) 0 questions [] [])) = questions \<and>
   (\<forall>i<length questions.
      snd (fst (app_answer_loop w k (length questions) 0 questions [] []) ! i) =
        (case chat_completion w i k (questions ! i) of
           Inl e \<Rightarrow> app_fallback | Inr content \<Rightarrow> strip content)) \<and>
   startswith dp_fallback (py ''Unable to generate an answer'') \<and>
   startswith app_fallback (py ''Unable to generate an answer'')"
proof -
  have dp: "(if truthy api_key then Some api_key else config_key w) = Some key \<longrightarrow>
      (\<exists>qa_pairs ev. generate_answers w questions api_key = Inr (qa_pairs, ev) \<and>
         map fst qa_pairs = questions \<and>
         (\<forall>i<length questions.
            snd (qa_pairs ! i) =
              (case chat_completion w i key (questions ! i) of
                 Inl e \<Rightarrow> dp_fallback | Inr content \<Rightarrow> strip content)))"
  proof
    assume k: "(if truthy api_key then Some api_key else config_key w) = Some key"
    define run where "run = dp_answer_loop w key (length questions) 0 questions []
        [Call ''generate_answers'', Progress_new, Status_new]"
    have gen: "generate_answers w questions api_key =
        Inr (fst run, snd run @ [Status_empty, Progress_empty])"
      using k unfolding run_def generate_answers_def
      by (auto split: if_splits option.splits prod.splits)
    have pairs: "fst run = map (\<lambda>(j, q). (q, dp_answer w key j q)) (enumerate 0 questions)"
      unfolding run_def by (simp add: dp_answer_loop_pairs)
    have "map fst (fst run) = questions"
      unfolding pairs by (rule map_fst_enumerate_pairs)
    moreover have "\<forall>i<length questions. snd (fst run ! i) =
        (case chat_completion w i key (questions ! i) of
           Inl e \<Rightarrow> dp_fallback | Inr content \<Rightarrow> strip content)"
      unfolding pairs by (simp add: nth_enumerate_eq dp_answer_def)
    ultimately show "\<exists>qa_pairs ev. generate_answers w questions api_key = Inr (qa_pairs, ev) \<and>
         map fst qa_pairs = questions \<and>
         (\<forall>i<length questions.
            snd (qa_pairs ! i) =
              (case chat_completion w i key (questions ! i) of
                 Inl e \<Rightarrow> dp_fallback | Inr content \<Rightarrow> strip content))"
      using gen by blast
  qed
  have pairs: "fst (app_answer_loop w k (length questions) 0 questions [] []) =
      map (\<lambda>(j, q). (q, app_answer w k j q)) (enumerate 0 questions)"
    by (simp add: app_answer_loop_pairs)
  have app1: "map fst (fst (app_answer_loop w k (length questions) 0 questions [] [])) = questions"
    unfolding pairs by (rule map_fst_enumerate_pairs)
  have app2: "\<forall>i<length questions.
      snd (fst (app_answer_loop w k (length questions) 0 questions [] []) ! i) =
        (case chat_completion w i k (questions ! i) of
           Inl e \<Rightarrow> app_fallback | Inr content \<Rightarrow> strip content)"
    unfolding pairs by (simp add: nth_enumerate_eq app_answer_def)
  have fb: "startswith dp_fallback (py ''Unable to generate an answer'')"
    "startswith app_fallback (py ''Unable to generate an answer'')"
    by (simp_all add: startswith_def dp_fallback_def app_fallback_def py_def)
  from dp app1 app2 fb show ?thesis by blast
qed

lemma answer_loops_complete_example:
  "map_sum id fst (generate_answers demo_world
     [py ''Where do we go?'', py ''Why is it so?'', py ''Who is there now?'']
     (Some (py ''sk-abcdefghijklmnopqrstu''))) =
     Inr [(py ''Where do we go?'', py ''Yes.''),
          (py ''Why is it so?'', dp_fallback),
          (py ''Who is there now?'', py ''Yes.'')] \<and>
   fst (app_answer_loop demo_world (Some (py ''sk-abcdefghijklmnopqrstu'')) 3 0
     [py ''Where do we go?'', py ''Why is it so?'', py ''Who is there now?''] [] []) =
     [(py ''Where do we go?'', py ''Yes.''),
      (py ''Why is it so?'', app_fallback),
      (py ''Who is there now?'', py ''Yes.'')]"
  using answer_loops_complete [of "Some (py ''sk-abcdefghijklmnopqrstu'')" demo_world
      "Some (py ''sk-abcdefghijklmnopqrstu'')"
      "[py ''Where do we go?'', py ''Why is it so?'', py ''Who is there now?'']"
      "Some (py ''sk-abcdefghijklmnopqrstu'')"]
  by (simp add: generate_answers_def get_gpt_answer_def demo_world_def strip_def isspace_def py_def)

text \<open>
  C4 fails for \<open>generate_answers\<close> when the credential is missing: called without an
  \<open>api_key\<close> where \<open>config\<close> has no \<open>OPENAI_API_KEY\<close>, it raises at the assignment
  before the loop, outside every \<open>try\<close>, and returns no pairs at all, where the claim has
  one pair with the fallback text for each question. The loop of app.py, given the same
  questions and no key, returns a pair for each.
\<close>

theorem generate_answers_without_key_raises:
  "config_key demo_world = None \<and>
   generate_answers demo_world [py ''Where do we go?'', py ''Why is it so?''] None =
     Inl config_has_no_key \<and>
   map fst (fst (app_answer_loop demo_world None 2 0
     [py ''Where do we go?'', py ''Why is it so?''] [] [])) =
     [py ''Where do we go?'', py ''Why is it so?'']"
  by (simp add: generate_answers_def get_gpt_answer_def demo_world_def)

section \<open>Properties of result assembly\<close>













section \<open>Properties of the page script\<close>

lemma key_input_no_call: "Call f \<notin> set (snd (snd (key_input w inp s)))"
  by (simp add: key_input_def Let_def)

lemma key_status_no_call: "Call f \<notin> set (snd (key_status k s))"
  by (simp add: key_status_def)

lemma key_status_fs: "fs (fst (key_status k s)) = fs s"
  by (simp add: key_status_def)

lemma key_input_fs: "fs (fst (snd (key_input w inp s))) = fs s"
  by (simp add: key_input_def Let_def)

lemma key_status_warns:
  "\<not> validate_api_key k \<Longrightarrow>
     Warning (py ''Please enter your OpenAI API key to proceed.'') \<in> set (snd (key_status k s))"
  by (simp add: key_status_def)

lemma get_document_text_call:
  "Call ''get_document_text'' \<in> set (snd (get_document_text w p t))"
  by (simp add: get_document_text_def split: prod.splits)

lemma process_document_events:
  "Call ''get_document_text'' \<in> set (fst (snd (process_document w inp key p t store))) \<and>
   (extract_questions (fst (get_document_text w p t)) = [] \<longrightarrow>
      Warning (py ''No questions were extracted from the document.'')
        \<in> set (fst (snd (process_document w inp key p t store)))) \<and>
   (extract_questions (fst (get_document_text w p t)) \<noteq> [] \<longrightarrow>
      set (write_questions 1 (extract_questions (fst (get_document_text w p t))))
        \<subseteq> set (fst (snd (process_document w inp key p t store))))"
  using get_document_text_call [of w p t]
  by (auto simp: process_document_def Let_def split: prod.splits)

text \<open>
  C3, as stated, fails: with \<open>notes.docx\<close> uploaded (its text holds the question
  \<open>Where do we go?\<close>) and no valid key, the run shows the two key notices and nothing
  else; the text is not extracted and no question is shown.
\<close>

theorem invalid_key_blocks_extraction:
  "uploaded no_key_inputs = Some \<lparr> name = py ''notes.docx'', getvalue = [80, 75, 3, 4] \<rparr> \<and>
   fst (snd (main demo_world no_key_inputs start_state)) =
     [Warning (py ''Please enter your OpenAI API key to proceed.''),
      Sidebar_error ([0x274C] @ py '' API Key not configured'')]"
  by (simp add: main_def key_input_def key_status_def get_api_key_def validate_api_key_def
      no_key_inputs_def start_state_def demo_world_def)

text \<open>
  C3, amended: when the key fails validation the whole pipeline is blocked, not only
  answer acquisition: \<open>get_document_text\<close> is not entered, no question is written,
  storage is as before, and the user is warned to enter a key. When the key is valid, a
  document is uploaded and its bytes are written to the temporary file, the text is
  extracted and segmented and the result is shown: the questions, or the notice that
  there are none.
\<close>

theorem pipeline_gated_on_key:
  "(\<not> validate_api_key (fst (key_input w inp s)) \<longrightarrow>
      Call ''get_document_text'' \<notin> set (fst (snd (main w inp s))) \<and>
      (\<forall>q. Write q \<notin> set (fst (snd (main w inp s)))) \<and>
      fs (fst (main w inp s)) = fs s \<and>
      Warning (py ''Please enter your OpenAI API key to proceed.'') \<in> set (fst (snd (main w inp s)))) \<and>
   (validate_api_key (fst (key_input w inp s)) \<and> uploaded inp = Some f \<and>
    tmp_write w (temp_name w 0 ([dot] @ file_type_of w f)) (getvalue f) = None \<longrightarrow>
      Call ''get_document_text'' \<in> set (fst (snd (main w inp s))) \<and>
      (let questions = extract_questions (fst (get_document_text w
           (temp_name w 0 ([dot] @ file_type_of w f)) (file_type_of w f)))
       in if questions = [] then
            Warning (py ''No questions were extracted from the document.'')
              \<in> set (fst (snd (main w inp s)))
          else set (write_questions 1 questions) \<subseteq> set (fst (snd (main w inp s)))))"
proof -
  obtain k s1 ev1 where ki: "key_input w inp s = (k, s1, ev1)"
    by (cases "key_input w inp s") auto
  obtain s2 ev2 where ks: "key_status k s1 = (s2, ev2)"
    by (cases "key_status k s1") auto
  have nc1: "Call ''get_document_text'' \<notin> set ev1" "\<forall>q. Write q \<notin> set ev1"
    using ki by (auto simp: key_input_def Let_def split: if_splits)
  have nc2: "Call ''get_document_text'' \<notin> set ev2" "\<forall>q. Write q \<notin> set ev2"
    using ks by (auto simp: key_status_def split: if_splits)
  have fs2: "fs s2 = fs s"
    using key_status_fs [of k s1] key_input_fs [of w inp s] ki ks by simp
  have blocked: "\<not> validate_api_key k \<Longrightarrow> main w inp s = (s2, ev1 @ ev2, None)"
    using ki ks by (simp add: main_def split: option.splits)
  have warn: "\<not> validate_api_key k \<Longrightarrow>
      Warning (py ''Please enter your OpenAI API key to proceed.'') \<in> set ev2"
    using key_status_warns [of k s1] ks by simp
  have part1: "\<not> validate_api_key (fst (key_input w inp s)) \<longrightarrow>
      Call ''get_document_text'' \<notin> set (fst (snd (main w inp s))) \<and>
      (\<forall>q. Write q \<notin> set (fst (snd (main w inp s)))) \<and>
      fs (fst (main w inp s)) = fs s \<and>
      Warning (py ''Please enter your OpenAI API key to proceed.'') \<in> set (fst (snd (main w inp s)))"
    using blocked warn nc1 nc2 fs2 ki by auto
  have part2: "validate_api_key (fst (key_input w inp s)) \<and> uploaded inp = Some f \<and>
      tmp_write w (temp_name w 0 ([dot] @ file_type_of w f)) (getvalue f) = None \<longrightarrow>
      Call ''get_document_text'' \<in> set (fst (snd (main w inp s))) \<and>
      (let questions = extract_questions (fst (get_document_text w
           (temp_name w 0 ([dot] @ file_type_of w f)) (file_type_of w f)))
       in if questions = [] then
            Warning (py ''No questions were extracted from the document.'')
              \<in> set (fst (snd (main w inp s)))
          else set (write_questions 1 questions) \<subseteq> set (fst (snd (main w inp s))))"
  proof
    assume a: "validate_api_key (fst (key_input w inp s)) \<and> uploaded inp = Some f \<and>
      tmp_write w (temp_name w 0 ([dot] @ file_type_of w f)) (getvalue f) = None"
    define tp where "tp = temp_name w 0 ([dot] @ file_type_of w f)"
    define store where "store = (fs s2)(tp \<mapsto> Bytes [], tp \<mapsto> Bytes (getvalue f))"
    define run where "run = process_document w inp (openai_api_key s2) tp (file_type_of w f) store"
    have sub: "set (fst (snd run)) \<subseteq> set (fst (snd (main w inp s)))"
      using a ki ks unfolding run_def store_def tp_def
      by (auto simp: main_def Let_def split: prod.splits sum.splits)
    from process_document_events [of w inp "openai_api_key s2" tp "file_type_of w f" store] sub
    show "Call ''get_document_text'' \<in> set (fst (snd (main w inp s))) \<and>
      (let questions = extract_questions (fst (get_document_text w
           (temp_name w 0 ([dot] @ file_type_of w f)) (file_type_of w f)))
       in if questions = [] then
            Warning (py ''No questions were extracted from the document.'')
              \<in> set (fst (snd (main w inp s)))
          else set (write_questions 1 questions) \<subseteq> set (fst (snd (main w inp s))))"
      unfolding run_def [symmetric] tp_def [symmetric] Let_def by auto
  qed
  from part1 part2 show ?thesis ..
qed


lemmas demo_eval = main_def key_input_def key_status_def get_api_key_def validate_api_key_def
  startswith_def no_key_inputs_def key_inputs_def start_state_def demo_world_def
  failing_save_world_def failing_write_world_def file_type_of_def ascii_lower_def dot_def py_def

lemma demo_key_valid:
  "validate_api_key (fst (key_input demo_world key_inputs start_state))"
  "validate_api_key (fst (key_input failing_save_world key_inputs start_state))"
  "validate_api_key (fst (key_input failing_write_world key_inputs start_state))"
  by (simp_all add: demo_eval)

lemma demo_key_invalid:
  "\<not> validate_api_key (fst (key_input demo_world no_key_inputs start_state))"
  by (simp add: demo_eval)

lemma demo_file_type:
  "file_type_of demo_world \<lparr> name = py ''notes.docx'', getvalue = [80, 75, 3, 4] \<rparr> = py ''docx''"
  "file_type_of failing_save_world \<lparr> name = py ''notes.docx'', getvalue = [80, 75, 3, 4] \<rparr> = py ''docx''"
  "file_type_of failing_write_world \<lparr> name = py ''notes.docx'', getvalue = [80, 75, 3, 4] \<rparr> = py ''docx''"
  by (simp_all add: demo_eval)


lemma demo_questions:
  "extract_questions (fst (get_document_text demo_world p (py ''docx''))) = [py ''Where do we go?'']"
  "extract_questions (fst (get_document_text failing_save_world p (py ''docx''))) = [py ''Where do we go?'']"
  by (simp_all add: get_document_text_def app_extract_text_from_docx_def extract_questions_def
      demo_world_def failing_save_world_def py_def strip_def split_def isspace_def
      class_upper_def class_not_punct_def qmark_def dot_def bang_def newline_def)

lemma demo_tmp_write:
  "tmp_write demo_world p bytes = None"
  "tmp_write failing_save_world p bytes = None"
  "tmp_write failing_write_world p bytes = Some (Exn (py ''No space left on device''), 2)"
  by (simp_all add: demo_world_def failing_save_world_def failing_write_world_def)

lemma demo_uploaded:
  "uploaded key_inputs = Some \<lparr> name = py ''notes.docx'', getvalue = [80, 75, 3, 4] \<rparr>"
  "uploaded no_key_inputs = Some \<lparr> name = py ''notes.docx'', getvalue = [80, 75, 3, 4] \<rparr>"
  by (simp_all add: key_inputs_def no_key_inputs_def)

lemma demo_write_questions:
  "py ''**Q'' @ str_nat (Suc 0) @ py '':** '' @ py ''Where do we go?'' = py ''**Q1:** Where do we go?''"
  by (simp add: str_nat.simps py_def)

theorem pipeline_gated_on_key_witness:
  "Call ''get_document_text'' \<in> set (fst (snd (main demo_world key_inputs start_state))) \<and>
   Write (py ''**Q1:** Where do we go?'') \<in> set (fst (snd (main demo_world key_inputs start_state))) \<and>
   Call ''get_document_text'' \<notin> set (fst (snd (main demo_world no_key_inputs start_state))) \<and>
   Write (py ''**Q1:** Where do we go?'') \<notin> set (fst (snd (main demo_world no_key_inputs start_state)))"
proof -
  let ?f = "\<lparr> name = py ''notes.docx'', getvalue = [80, 75, 3, 4] \<rparr>"
  from pipeline_gated_on_key [of demo_world key_inputs start_state ?f]
    demo_key_valid(1) demo_uploaded(1) demo_tmp_write(1)
  have "Call ''get_document_text'' \<in> set (fst (snd (main demo_world key_inputs start_state)))"
    and "set (write_questions 1 [py ''Where do we go?''])
      \<subseteq> set (fst (snd (main demo_world key_inputs start_state)))"
    by (simp_all add: demo_file_type demo_questions)
  moreover from pipeline_gated_on_key [of demo_world no_key_inputs start_state ?f]
    demo_key_invalid
  have "Call ''get_document_text'' \<notin> set (fst (snd (main demo_world no_key_inputs start_state)))"
    and "Write (py ''**Q1:** Where do we go?'')
      \<notin> set (fst (snd (main demo_world no_key_inputs start_state)))"
    by blast+
  ultimately show ?thesis by (simp add: demo_write_questions)
qed



end
